theory Spec2Isabelle
  imports Complex_Main "HOL-Library.Multiset"
begin

section \<open>Values\<close>

text \<open>
  A \<open>datetime.date\<close> is represented by its proleptic Gregorian ordinal
  (\<open>date.toordinal()\<close>): comparison of dates is comparison of ordinals and
  \<open>d + timedelta(days=n)\<close> is \<open>d + n\<close>. The current date \<open>date.today()\<close> is a
  parameter of every operation that reads the clock.
\<close>

type_synonym date = int

text \<open>
  A Python \<open>float\<close>: a finite value, an infinity or NaN. Only comparisons against the
  integer constants \<open>0\<close> and \<open>100\<close> are made on floats in the routes and schemas, so a
  finite float is represented by the real number it denotes. Every comparison with NaN
  is false.
\<close>

datatype pyfloat = Finite real | PosInf | NegInf | NaN

fun float_le :: "pyfloat \<Rightarrow> pyfloat \<Rightarrow> bool" where
  "float_le NaN _ = False"
| "float_le _ NaN = False"
| "float_le NegInf _ = True"
| "float_le _ PosInf = True"
| "float_le (Finite a) (Finite b) = (a \<le> b)"
| "float_le _ _ = False"

fun float_lt :: "pyfloat \<Rightarrow> pyfloat \<Rightarrow> bool" where
  "float_lt NaN _ = False"
| "float_lt _ NaN = False"
| "float_lt NegInf NegInf = False"
| "float_lt NegInf _ = True"
| "float_lt PosInf _ = False"
| "float_lt (Finite a) PosInf = True"
| "float_lt (Finite a) (Finite b) = (a < b)"
| "float_lt (Finite a) NegInf = False"

text \<open>
  An f-string is kept as the sequence of its parts, literal text and formatted values, in
  the order of the source: the rendering of an \<open>int\<close> or a \<open>date\<close> by \<open>str\<close> is the
  interpreter's.
\<close>

datatype fpart = Text string | StrV string | IntV int | DateV date

text \<open>
  What a route or a schema can raise. \<open>HTTPException\<close> carries the status code and the
  detail; \<open>ValidationError\<close> carries one (field, message) pair per rejected field;
  \<open>MultipleResultsFound\<close> and \<open>NoResultFound\<close> are the errors of \<open>scalar_one_or_none\<close>
  and \<open>scalar_one\<close>.
\<close>

datatype error =
    HTTPException nat "fpart list"
  | ValidationError "(string \<times> string) list"
  | MultipleResultsFound
  | NoResultFound
  | ZeroDivisionError

section \<open>The store\<close>

text \<open>
  Modelled from the spec: the table declarations of \<open>database.models\<close>
  (\<open>CountryModel\<close>, \<open>GenreModel\<close>, \<open>ActorModel\<close>, \<open>LanguageModel\<close>, \<open>MovieModel\<close>)
  are not among the sources. A reference row has a surrogate id and its columns; the
  columns are kept as the keyword arguments the row was built from (a column that was
  never given is unset). A movie has a surrogate id, seven scalar attributes, one country
  and three relations. A scalar attribute is an \<open>option\<close> because \<open>setattr\<close> in the
  partial update can store \<open>None\<close> in it. A relation of a stored movie is the set of the
  reference rows that the association table links to it.
\<close>

datatype model = CountryModel | GenreModel | ActorModel | LanguageModel

record row =
  row_id :: nat
  row_cols :: "(string \<times> string) list"

record movie =
  m_id :: nat
  m_name :: "string option"
  m_date :: "date option"
  m_score :: "pyfloat option"
  m_overview :: "string option"
  m_status :: "string option"
  m_budget :: "pyfloat option"
  m_revenue :: "pyfloat option"
  m_country :: row
  m_genres :: "row set"
  m_actors :: "row set"
  m_languages :: "row set"

text \<open>
  The state of the session: the five tables, each in insertion order. Rows that a request
  has flushed are in it, so a later statement of the same request sees them. A flush and a
  commit are taken to succeed: a failure of the storage layer is no branch of a route.
\<close>

record db =
  countries :: "row list"
  genres :: "row list"
  actors :: "row list"
  languages :: "row list"
  movies :: "movie list"

fun table :: "db \<Rightarrow> model \<Rightarrow> row list" where
  "table s CountryModel = countries s"
| "table s GenreModel = genres s"
| "table s ActorModel = actors s"
| "table s LanguageModel = languages s"

text \<open>
  Modelled from the spec: the surrogate key the storage gives a new row on flush. It is
  the successor of the largest id of the table.
\<close>

definition fresh_id :: "nat list \<Rightarrow> nat" where
  "fresh_id ids = Suc (fold max ids 0)"

text \<open>\<open>db.add(obj)\<close> followed by \<open>db.flush()\<close> for a reference row.\<close>

fun add_flush :: "db \<Rightarrow> model \<Rightarrow> (string \<times> string) list \<Rightarrow> row \<times> db" where
  "add_flush s CountryModel kw =
     (let obj = \<lparr>row_id = fresh_id (map row_id (countries s)), row_cols = kw\<rparr>
      in (obj, s\<lparr>countries := countries s @ [obj]\<rparr>))"
| "add_flush s GenreModel kw =
     (let obj = \<lparr>row_id = fresh_id (map row_id (genres s)), row_cols = kw\<rparr>
      in (obj, s\<lparr>genres := genres s @ [obj]\<rparr>))"
| "add_flush s ActorModel kw =
     (let obj = \<lparr>row_id = fresh_id (map row_id (actors s)), row_cols = kw\<rparr>
      in (obj, s\<lparr>actors := actors s @ [obj]\<rparr>))"
| "add_flush s LanguageModel kw =
     (let obj = \<lparr>row_id = fresh_id (map row_id (languages s)), row_cols = kw\<rparr>
      in (obj, s\<lparr>languages := languages s @ [obj]\<rparr>))"

text \<open>
  \<open>scalar_one_or_none\<close> and \<open>scalar_one\<close> on the rows a statement selects.
\<close>

fun scalar_one_or_none :: "'a list \<Rightarrow> error + 'a option" where
  "scalar_one_or_none [] = Inr None"
| "scalar_one_or_none [x] = Inr (Some x)"
| "scalar_one_or_none (x # y # zs) = Inl MultipleResultsFound"

fun scalar_one :: "'a list \<Rightarrow> error + 'a" where
  "scalar_one [] = Inl NoResultFound"
| "scalar_one [x] = Inr x"
| "scalar_one (x # y # zs) = Inl MultipleResultsFound"

text \<open>
  \<open>filter_by(**kwargs)\<close>: a row is selected when every given column has exactly the
  given value. Strings are compared character by character.
\<close>

definition row_matches :: "(string \<times> string) list \<Rightarrow> row \<Rightarrow> bool" where
  "row_matches kw r = list_all (\<lambda>(k, v). map_of (row_cols r) k = Some v) kw"

text \<open>The \<open>name\<close> attribute of a reference row (\<open>GenreSchema.name\<close> and its siblings).\<close>

definition row_name :: "row \<Rightarrow> string option" where
  "row_name r = map_of (row_cols r) ''name''"

text \<open>
  Modelled from the spec: the unique constraints of the table declarations, which are not
  among the sources. The natural key of a reference table is unique (\<open>code\<close> for a
  country, \<open>name\<close> for a genre, an actor and a language; rows with the column unset are
  not compared), and the pair (name, date) is unique among the movies.
\<close>

definition unique_on :: "string \<Rightarrow> row list \<Rightarrow> bool" where
  "unique_on c rows = distinct (List.map_filter (\<lambda>r. map_of (row_cols r) c) rows)"

definition db_unique :: "db \<Rightarrow> bool" where
  "db_unique s =
     (unique_on ''code'' (countries s) \<and> unique_on ''name'' (genres s) \<and>
      unique_on ''name'' (actors s) \<and> unique_on ''name'' (languages s))"

definition unique_name_date :: "movie list \<Rightarrow> bool" where
  "unique_name_date ms = distinct (map (\<lambda>m. (m_name m, m_date m)) ms)"

text \<open>
  No stored movie has a date more than 365 days after the day \<open>today\<close>. The empty store
  is such a store, and the routes keep a store so as the days pass.
\<close>

definition dates_within :: "date \<Rightarrow> movie list \<Rightarrow> bool" where
  "dates_within today ms =
     list_all (\<lambda>m. case m_date m of None \<Rightarrow> True | Some dt \<Rightarrow> dt \<le> today + 365) ms"

section \<open>routes/movies.py\<close>

definition BASE_URL :: string where
  "BASE_URL = ''/theater/movies''"

text \<open>
  \<open>get_or_create(db, model, **kwargs)\<close>. The result is what the call returns or raises,
  with the state of the session when it ends.
\<close>

definition get_or_create ::
  "db \<Rightarrow> model \<Rightarrow> (string \<times> string) list \<Rightarrow> (error + row) \<times> db" where
  "get_or_create s mdl kw =
     (case scalar_one_or_none (filter (row_matches kw) (table s mdl)) of
        Inl e \<Rightarrow> (Inl e, s)
      | Inr (Some obj) \<Rightarrow> (Inr obj, s)
      | Inr None \<Rightarrow> (case add_flush s mdl kw of (obj, s') \<Rightarrow> (Inr obj, s')))"

text \<open>
  The list comprehension \<open>[await get_or_create(db, model, name=x) for x in xs]\<close> of
  \<open>create_movie\<close>: the names are resolved from left to right, each call seeing the rows
  the calls before it have flushed; the first call that raises ends the comprehension.
\<close>

fun get_or_create_each ::
  "db \<Rightarrow> model \<Rightarrow> string list \<Rightarrow> (error + row list) \<times> db" where
  "get_or_create_each s mdl [] = (Inr [], s)"
| "get_or_create_each s mdl (x # xs) =
     (case get_or_create s mdl [(''name'', x)] of
        (Inl e, s1) \<Rightarrow> (Inl e, s1)
      | (Inr obj, s1) \<Rightarrow>
          (case get_or_create_each s1 mdl xs of
             (Inl e, s2) \<Rightarrow> (Inl e, s2)
           | (Inr objs, s2) \<Rightarrow> (Inr (obj # objs), s2)))"

subsection \<open>get_movies\<close>

record movie_list_response =
  r_movies :: "movie list"
  r_total_pages :: int
  r_total_items :: int
  r_prev_page :: "fpart list option"
  r_next_page :: "fpart list option"

definition page_link :: "int \<Rightarrow> int \<Rightarrow> fpart list" where
  "page_link p per_page =
     [Text BASE_URL, Text ''/?page='', IntV p, Text ''&per_page='', IntV per_page]"

text \<open>
  \<open>order_by(MovieModel.id.desc())\<close>, then \<open>offset\<close> and \<open>limit\<close>.
\<close>

definition order_by_id_desc :: "movie list \<Rightarrow> movie list" where
  "order_by_id_desc ms = rev (sort_key m_id ms)"

text \<open>
  \<open>get_movies(page, per_page, db)\<close>. The bounds \<open>Query(1, ge=1)\<close> and
  \<open>Query(10, ge=1, le=20)\<close> of the parameters are checked before the handler runs; they
  are hypotheses of the theorems about it. \<open>total_items / per_page\<close> is Python's true
  division, which raises \<open>ZeroDivisionError\<close> on a zero divisor; \<open>ceil\<close> is taken of the
  exact quotient.
\<close>

definition get_movies :: "db \<Rightarrow> int \<Rightarrow> int \<Rightarrow> error + movie_list_response" where
  "get_movies s page per_page =
     (let total_items = int (length (movies s)) in
      if total_items = 0 then Inl (HTTPException 404 [Text ''No movies found.''])
      else if per_page = 0 then Inl ZeroDivisionError
      else
        let total_pages = \<lceil>(of_int total_items :: real) / of_int per_page\<rceil> in
        if page > total_pages then Inl (HTTPException 404 [Text ''No movies found.''])
        else
          let offset = (page - 1) * per_page;
              ms = take (nat per_page) (drop (nat offset) (order_by_id_desc (movies s)))
          in Inr \<lparr>r_movies = ms,
                  r_total_pages = total_pages,
                  r_total_items = total_items,
                  r_prev_page = (if page > 1 then Some (page_link (page - 1) per_page) else None),
                  r_next_page = (if page < total_pages then Some (page_link (page + 1) per_page)
                                 else None)\<rparr>)"

subsection \<open>create_movie\<close>

record create_data =
  c_name :: string
  c_date :: date
  c_score :: pyfloat
  c_overview :: "string option"
  c_status :: string
  c_budget :: pyfloat
  c_revenue :: pyfloat
  c_country :: string
  c_genres :: "string list"
  c_actors :: "string list"
  c_languages :: "string list"

text \<open>The truth value of \<open>data.overview or ""\<close>: \<open>None\<close> and the empty string give \<open>""\<close>.\<close>

definition overview_or_empty :: "string option \<Rightarrow> string" where
  "overview_or_empty v = (case v of None \<Rightarrow> [] | Some t \<Rightarrow> (if t = [] then [] else t))"

definition same_name_date :: "create_data \<Rightarrow> movie \<Rightarrow> bool" where
  "same_name_date d m = (m_name m = Some (c_name d) \<and> m_date m = Some (c_date d))"

definition conflict_detail :: "create_data \<Rightarrow> fpart list" where
  "conflict_detail d =
     [Text (''A movie with the name '' @ [CHR 0x27]), StrV (c_name d),
      Text ([CHR 0x27] @ '' and release date '' @ [CHR 0x27]), DateV (c_date d),
      Text ([CHR 0x27] @ '' already exists.'')]"

text \<open>
  Modelled from the spec: the three association tables of \<open>database.models\<close> and the
  relationships declared on \<open>MovieModel\<close> are not among the sources. They decide what
  \<open>db.commit()\<close> stores for the list assigned to \<open>movie.genres\<close> (\<open>movie.actors\<close>,
  \<open>movie.languages\<close>) and what \<open>selectinload\<close> reads back. By the spec the
  association is a set, not a multiset, and its order is irrelevant: a row assigned more
  than once is linked once.
\<close>

definition association :: "row list \<Rightarrow> row set" where
  "association objs = set objs"

text \<open>
  The movie that is stored for the object \<open>MovieModel(name=data.name, ...,
  country=country)\<close> with the three lists assigned to its relations, under the id it is
  given when it is flushed.
\<close>

definition new_movie ::
  "create_data \<Rightarrow> nat \<Rightarrow> row \<Rightarrow> row list \<Rightarrow> row list \<Rightarrow> row list \<Rightarrow> movie" where
  "new_movie d i country gs as ls =
     \<lparr>m_id = i,
      m_name = Some (c_name d),
      m_date = Some (c_date d),
      m_score = Some (c_score d),
      m_overview = Some (overview_or_empty (c_overview d)),
      m_status = Some (c_status d),
      m_budget = Some (c_budget d),
      m_revenue = Some (c_revenue d),
      m_country = country,
      m_genres = association gs,
      m_actors = association as,
      m_languages = association ls\<rparr>"

text \<open>
  \<open>create_movie(data, db)\<close> with \<open>date.today()\<close> as \<open>today\<close>. The second component is
  the state of the session when the handler returns or raises. The comprehensions build
  the lists \<open>gs\<close>, \<open>as\<close> and \<open>ls\<close>; after \<open>db.add(movie)\<close> and \<open>db.commit()\<close>
  the stored movie is selected by its id with its relations loaded, and that is what the
  handler returns.
\<close>

definition create_movie :: "date \<Rightarrow> db \<Rightarrow> create_data \<Rightarrow> (error + movie) \<times> db" where
  "create_movie today s d =
     (if c_date d > today + 365
      then (Inl (HTTPException 400 [Text ''Invalid input data.'']), s)
      else
        case scalar_one_or_none (filter (same_name_date d) (movies s)) of
          Inl e \<Rightarrow> (Inl e, s)
        | Inr (Some existing_movie) \<Rightarrow> (Inl (HTTPException 409 (conflict_detail d)), s)
        | Inr None \<Rightarrow>
            (case get_or_create s CountryModel [(''code'', c_country d)] of
               (Inl e, s1) \<Rightarrow> (Inl e, s1)
             | (Inr country, s1) \<Rightarrow>
            (case get_or_create_each s1 GenreModel (c_genres d) of
               (Inl e, s2) \<Rightarrow> (Inl e, s2)
             | (Inr gs, s2) \<Rightarrow>
            (case get_or_create_each s2 ActorModel (c_actors d) of
               (Inl e, s3) \<Rightarrow> (Inl e, s3)
             | (Inr as, s3) \<Rightarrow>
            (case get_or_create_each s3 LanguageModel (c_languages d) of
               (Inl e, s4) \<Rightarrow> (Inl e, s4)
             | (Inr ls, s4) \<Rightarrow>
                 (let mv = new_movie d (fresh_id (map m_id (movies s4))) country gs as ls;
                      s5 = s4\<lparr>movies := movies s4 @ [mv]\<rparr>
                  in case scalar_one (filter (\<lambda>m. m_id m = m_id mv) (movies s5)) of
                       Inl e \<Rightarrow> (Inl e, s5)
                     | Inr m \<Rightarrow> (Inr m, s5)))))))"

subsection \<open>update_movie\<close>

text \<open>
  \<open>MovieUpdateSchema\<close>: every field is optional with default \<open>None\<close>. The outer
  \<open>option\<close> of a field tells whether the request set it (pydantic's \<open>model_fields_set\<close>):
  \<open>None\<close> is a field the request omitted, \<open>Some None\<close> a field sent as \<open>null\<close>,
  \<open>Some (Some v)\<close> a field sent with the value \<open>v\<close>.

  The field \<open>date\<close> is declared \<open>date: Optional[date] = None\<close>. In a class body an
  annotated assignment assigns before it evaluates the annotation, so the name \<open>date\<close>
  is already \<open>None\<close> when \<open>Optional[date]\<close> is evaluated: the type of the field is
  \<open>NoneType\<close>, and the only value a request can set it to is \<open>null\<close>. In the data the
  handler receives the field is therefore omitted (\<open>None\<close>) or \<open>null\<close> (\<open>Some ()\<close>).
\<close>

record update_data =
  u_name :: "string option option"
  u_date :: "unit option"
  u_score :: "pyfloat option option"
  u_overview :: "string option option"
  u_status :: "string option option"
  u_budget :: "pyfloat option option"
  u_revenue :: "pyfloat option option"

text \<open>
  An item of the dictionary \<open>data.model_dump(exclude_unset=True)\<close>: the key with its
  value, typed by the field it belongs to.
\<close>

datatype item =
    Set_name "string option"
  | Set_date "date option"
  | Set_score "pyfloat option"
  | Set_overview "string option"
  | Set_status "string option"
  | Set_budget "pyfloat option"
  | Set_revenue "pyfloat option"

definition dump_field :: "('a \<Rightarrow> item) \<Rightarrow> 'a option \<Rightarrow> item list" where
  "dump_field key v = (case v of None \<Rightarrow> [] | Some x \<Rightarrow> [key x])"

definition model_dump_exclude_unset :: "update_data \<Rightarrow> item list" where
  "model_dump_exclude_unset d =
     dump_field Set_name (u_name d) @ dump_field (\<lambda>u. Set_date None) (u_date d) @
     dump_field Set_score (u_score d) @ dump_field Set_overview (u_overview d) @
     dump_field Set_status (u_status d) @ dump_field Set_budget (u_budget d) @
     dump_field Set_revenue (u_revenue d)"

fun setattr :: "movie \<Rightarrow> item \<Rightarrow> movie" where
  "setattr m (Set_name v) = m\<lparr>m_name := v\<rparr>"
| "setattr m (Set_date v) = m\<lparr>m_date := v\<rparr>"
| "setattr m (Set_score v) = m\<lparr>m_score := v\<rparr>"
| "setattr m (Set_overview v) = m\<lparr>m_overview := v\<rparr>"
| "setattr m (Set_status v) = m\<lparr>m_status := v\<rparr>"
| "setattr m (Set_budget v) = m\<lparr>m_budget := v\<rparr>"
| "setattr m (Set_revenue v) = m\<lparr>m_revenue := v\<rparr>"

definition not_found_detail :: "fpart list" where
  "not_found_detail = [Text ''Movie with the given ID was not found.'']"

text \<open>
  \<open>update_movie(movie_id, data, db)\<close>. The loop over the items of the dump is a left
  fold of \<open>setattr\<close>; \<open>db.commit()\<close> writes the changed object back to its row. The
  handler returns the dictionary \<open>{"detail": "Movie updated successfully."}\<close>.
\<close>

definition update_movie ::
  "db \<Rightarrow> int \<Rightarrow> update_data \<Rightarrow> (error + (string \<times> string) list) \<times> db" where
  "update_movie s movie_id d =
     (case scalar_one_or_none (filter (\<lambda>m. int (m_id m) = movie_id) (movies s)) of
        Inl e \<Rightarrow> (Inl e, s)
      | Inr None \<Rightarrow> (Inl (HTTPException 404 not_found_detail), s)
      | Inr (Some mv) \<Rightarrow>
          (let mv' = foldl setattr mv (model_dump_exclude_unset d)
           in (Inr [(''detail'', ''Movie updated successfully.'')],
               s\<lparr>movies := map (\<lambda>m. if int (m_id m) = movie_id then mv' else m) (movies s)\<rparr>)))"

subsection \<open>delete_movie\<close>

text \<open>
  \<open>delete_movie(movie_id, db)\<close>: the selected movie is deleted and the handler returns
  \<open>None\<close>.
\<close>

definition delete_movie :: "db \<Rightarrow> int \<Rightarrow> (error + unit) \<times> db" where
  "delete_movie s movie_id =
     (case scalar_one_or_none (filter (\<lambda>m. int (m_id m) = movie_id) (movies s)) of
        Inl e \<Rightarrow> (Inl e, s)
      | Inr None \<Rightarrow> (Inl (HTTPException 404 not_found_detail), s)
      | Inr (Some mv) \<Rightarrow>
          (Inr (), s\<lparr>movies := filter (\<lambda>m. int (m_id m) \<noteq> movie_id) (movies s)\<rparr>))"

section \<open>schemas/movies.py\<close>

text \<open>
  A field validator returns the value or raises \<open>ValueError\<close> with a message
  (\<open>Inl\<close>). \<open>not 0 <= v <= 100\<close> and \<open>v < 0\<close> are float comparisons.
\<close>

definition validate_score :: "pyfloat \<Rightarrow> string + pyfloat" where
  "validate_score v =
     (if \<not> (float_le (Finite 0) v \<and> float_le v (Finite 100))
      then Inl ''Score must be between 0 and 100'' else Inr v)"

definition validate_money :: "pyfloat \<Rightarrow> string + pyfloat" where
  "validate_money v = (if float_lt v (Finite 0) then Inl ''Must be non-negative'' else Inr v)"

text \<open>The constraint \<open>Field(max_length=255)\<close> of \<open>name\<close>.\<close>

definition max_length_255 :: "string \<Rightarrow> string + string" where
  "max_length_255 v =
     (if length v > 255 then Inl ''String should have at most 255 characters'' else Inr v)"

definition field_errors :: "string \<Rightarrow> string + 'a \<Rightarrow> (string \<times> string) list" where
  "field_errors f r = (case r of Inl msg \<Rightarrow> [(f, msg)] | Inr v \<Rightarrow> [])"

text \<open>
  Building a \<open>MovieCreateSchema\<close> from a request body whose fields have the declared
  types: every constrained field is checked, and the errors of all rejected fields are
  raised together as one \<open>ValidationError\<close>. No argument of it is the store.
\<close>

definition create_errors :: "create_data \<Rightarrow> (string \<times> string) list" where
  "create_errors d =
     field_errors ''name'' (max_length_255 (c_name d)) @
     field_errors ''score'' (validate_score (c_score d)) @
     field_errors ''budget'' (validate_money (c_budget d)) @
     field_errors ''revenue'' (validate_money (c_revenue d))"

definition MovieCreateSchema :: "create_data \<Rightarrow> error + create_data" where
  "MovieCreateSchema d =
     (if create_errors d = [] then Inr d else Inl (ValidationError (create_errors d)))"

text \<open>
  The validators of \<open>MovieUpdateSchema\<close> take an optional value and accept \<open>None\<close>.
  A validator runs only on a field the request set.
\<close>

definition validate_score_opt :: "pyfloat option \<Rightarrow> string + pyfloat option" where
  "validate_score_opt v =
     (case v of
        None \<Rightarrow> Inr v
      | Some x \<Rightarrow>
          (if \<not> (float_le (Finite 0) x \<and> float_le x (Finite 100))
           then Inl ''Score must be between 0 and 100'' else Inr v))"

definition validate_money_opt :: "pyfloat option \<Rightarrow> string + pyfloat option" where
  "validate_money_opt v =
     (case v of
        None \<Rightarrow> Inr v
      | Some x \<Rightarrow> (if float_lt x (Finite 0) then Inl ''Must be non-negative'' else Inr v))"

definition max_length_255_opt :: "string option \<Rightarrow> string + string option" where
  "max_length_255_opt v =
     (case v of
        None \<Rightarrow> Inr v
      | Some x \<Rightarrow>
          (if length x > 255 then Inl ''String should have at most 255 characters''
           else Inr v))"

definition set_field_errors ::
  "string \<Rightarrow> ('a \<Rightarrow> string + 'a) \<Rightarrow> 'a option \<Rightarrow> (string \<times> string) list" where
  "set_field_errors f check v = (case v of None \<Rightarrow> [] | Some x \<Rightarrow> field_errors f (check x))"

text \<open>
  The body of a \<open>PATCH\<close> request: what a client can send for the seven fields of the
  schema. For the date it can omit the field, send \<open>null\<close> or send a date.
\<close>

record update_body =
  b_name :: "string option option"
  b_date :: "date option option"
  b_score :: "pyfloat option option"
  b_overview :: "string option option"
  b_status :: "string option option"
  b_budget :: "pyfloat option option"
  b_revenue :: "pyfloat option option"

text \<open>
  The check of a field whose type is \<open>NoneType\<close>, as the field \<open>date\<close> of
  \<open>MovieUpdateSchema\<close> is: only \<open>None\<close> is accepted.
\<close>

definition none_required :: "date option \<Rightarrow> string + date option" where
  "none_required v = (case v of None \<Rightarrow> Inr v | Some x \<Rightarrow> Inl ''Input should be None'')"

definition update_errors :: "update_body \<Rightarrow> (string \<times> string) list" where
  "update_errors b =
     set_field_errors ''name'' max_length_255_opt (b_name b) @
     set_field_errors ''date'' none_required (b_date b) @
     set_field_errors ''score'' validate_score_opt (b_score b) @
     set_field_errors ''budget'' validate_money_opt (b_budget b) @
     set_field_errors ''revenue'' validate_money_opt (b_revenue b)"

text \<open>
  Building a \<open>MovieUpdateSchema\<close> from a body: the errors of all rejected fields are
  raised together; an accepted body gives the data with the same fields set.
\<close>

definition MovieUpdateSchema :: "update_body \<Rightarrow> error + update_data" where
  "MovieUpdateSchema b =
     (if update_errors b = []
      then Inr \<lparr>u_name = b_name b,
                u_date = map_option (\<lambda>v. ()) (b_date b),
                u_score = b_score b,
                u_overview = b_overview b,
                u_status = b_status b,
                u_budget = b_budget b,
                u_revenue = b_revenue b\<rparr>
      else Inl (ValidationError (update_errors b)))"

section \<open>The two endpoints with a request body\<close>

text \<open>
  \<open>POST /movies/\<close> and \<open>PATCH /movies/{movie_id}/\<close>: the parameter
  \<open>data: MovieCreateSchema\<close> (\<open>data: MovieUpdateSchema\<close>) of the handler is built from
  the body first, and the handler runs only when that succeeded.
\<close>

definition post_movies :: "date \<Rightarrow> db \<Rightarrow> create_data \<Rightarrow> (error + movie) \<times> db" where
  "post_movies today s body =
     (case MovieCreateSchema body of
        Inl e \<Rightarrow> (Inl e, s)
      | Inr d \<Rightarrow> create_movie today s d)"

definition patch_movie ::
  "db \<Rightarrow> int \<Rightarrow> update_body \<Rightarrow> (error + (string \<times> string) list) \<times> db" where
  "patch_movie s movie_id body =
     (case MovieUpdateSchema body of
        Inl e \<Rightarrow> (Inl e, s)
      | Inr d \<Rightarrow> update_movie s movie_id d)"

section \<open>Example stores and requests\<close>

text \<open>
  The empty store, a create request that names one genre twice, and the movie and the
  store that \<open>create_movie\<close> makes of them.
\<close>

definition empty_db :: db where
  "empty_db = \<lparr>countries = [], genres = [], actors = [], languages = [], movies = []\<rparr>"

definition heat :: create_data where
  "heat = \<lparr>c_name = ''Heat'', c_date = 728642, c_score = Finite 83, c_overview = None,
           c_status = ''Released'', c_budget = Finite 60000000, c_revenue = Finite 187000000,
           c_country = ''US'', c_genres = [''Crime'', ''Drama'', ''Crime''],
           c_actors = [''Al Pacino'', ''Robert De Niro''], c_languages = [''English'']\<rparr>"

definition heat_movie :: movie where
  "heat_movie =
     \<lparr>m_id = 1, m_name = Some ''Heat'', m_date = Some 728642, m_score = Some (Finite 83),
      m_overview = Some [], m_status = Some ''Released'', m_budget = Some (Finite 60000000),
      m_revenue = Some (Finite 187000000),
      m_country = \<lparr>row_id = 1, row_cols = [(''code'', ''US'')]\<rparr>,
      m_genres = {\<lparr>row_id = 1, row_cols = [(''name'', ''Crime'')]\<rparr>,
                  \<lparr>row_id = 2, row_cols = [(''name'', ''Drama'')]\<rparr>},
      m_actors = {\<lparr>row_id = 1, row_cols = [(''name'', ''Al Pacino'')]\<rparr>,
                  \<lparr>row_id = 2, row_cols = [(''name'', ''Robert De Niro'')]\<rparr>},
      m_languages = {\<lparr>row_id = 1, row_cols = [(''name'', ''English'')]\<rparr>}\<rparr>"

definition heat_db :: db where
  "heat_db =
     \<lparr>countries = [\<lparr>row_id = 1, row_cols = [(''code'', ''US'')]\<rparr>],
      genres = [\<lparr>row_id = 1, row_cols = [(''name'', ''Crime'')]\<rparr>,
                \<lparr>row_id = 2, row_cols = [(''name'', ''Drama'')]\<rparr>],
      actors = [\<lparr>row_id = 1, row_cols = [(''name'', ''Al Pacino'')]\<rparr>,
                \<lparr>row_id = 2, row_cols = [(''name'', ''Robert De Niro'')]\<rparr>],
      languages = [\<lparr>row_id = 1, row_cols = [(''name'', ''English'')]\<rparr>],
      movies = [heat_movie]\<rparr>"

text \<open>
  The body of a partial update that sends only a date, the day 739500, and the request
  to create a movie of the same name on that day.
\<close>

definition postponed :: update_body where
  "postponed = \<lparr>b_name = None, b_date = Some (Some 739500), b_score = None,
                 b_overview = None, b_status = None, b_budget = None, b_revenue = None\<rparr>"

definition heat_postponed :: create_data where
  "heat_postponed = heat\<lparr>c_date := 739500\<rparr>"

text \<open>A second create request, which names a genre and an actor of the first.\<close>

definition casino :: create_data where
  "casino = \<lparr>c_name = ''Casino'', c_date = 728619, c_score = Finite 82, c_overview = Some ''Las Vegas'',
             c_status = ''Released'', c_budget = Finite 52000000, c_revenue = Finite 116000000,
             c_country = ''US'', c_genres = [''Crime''],
             c_actors = [''Robert De Niro'', ''Sharon Stone''], c_languages = [''English'']\<rparr>"

text \<open>A store of \<open>n\<close> movies with the ids 1 to \<open>n\<close>.\<close>

definition numbered_db :: "nat \<Rightarrow> db" where
  "numbered_db n = heat_db\<lparr>movies := map (\<lambda>i. heat_movie\<lparr>m_id := i\<rparr>) [1..<Suc n]\<rparr>"

text \<open>Two partial updates: one sets only the score, one sends \<open>null\<close> for the overview.\<close>

definition score_only :: update_data where
  "score_only = \<lparr>u_name = None, u_date = None, u_score = Some (Some (Finite 50)),
                  u_overview = None, u_status = None, u_budget = None, u_revenue = None\<rparr>"

definition clear_overview :: update_data where
  "clear_overview = \<lparr>u_name = None, u_date = None, u_score = None,
                  u_overview = Some None, u_status = None, u_budget = None, u_revenue = None\<rparr>"

text \<open>The first request with a name of 256 characters.\<close>

definition long_name :: create_data where
  "long_name = heat\<lparr>c_name := replicate 256 (CHR ''a'')\<rparr>"

text \<open>The first request with its genres deduplicated and its lists in another order.\<close>

definition heat_reordered :: create_data where
  "heat_reordered = heat\<lparr>c_genres := [''Drama'', ''Crime''],
                          c_actors := [''Robert De Niro'', ''Al Pacino'']\<rparr>"

text \<open>The row of the genre \<open>Crime\<close> in the store of the first movie.\<close>

definition crime_row :: row where
  "crime_row = \<lparr>row_id = 1, row_cols = [(''name'', ''Crime'')]\<rparr>"

section \<open>Surrogate keys and the storage primitives\<close>

lemma fold_max_ge: "a \<le> fold max ids (a::nat)"
  by (induction ids arbitrary: a) (auto intro: order_trans [OF max.cobounded2])

lemma fold_max_mem: "x \<in> set ids \<Longrightarrow> x \<le> fold max ids (a::nat)"
proof (induction ids arbitrary: a)
  case Nil
  then show ?case by simp
next
  case (Cons y ys)
  show ?case
  proof (cases "x = y")
    case True
    have "max y a \<le> fold max ys (max y a)" by (rule fold_max_ge)
    then show ?thesis using True by simp
  next
    case False
    with Cons show ?thesis by simp
  qed
qed

lemma fresh_id_notin: "fresh_id ids \<notin> set ids"
proof
  assume "fresh_id ids \<in> set ids"
  then have "fresh_id ids \<le> fold max ids 0" by (rule fold_max_mem)
  then show False by (simp add: fresh_id_def)
qed

lemma add_flush_table:
  "add_flush s mdl kw = (obj, s') \<Longrightarrow>
   table s' mdl = table s mdl @ [obj] \<and> row_cols obj = kw \<and>
   row_id obj = fresh_id (map row_id (table s mdl)) \<and> movies s' = movies s"
  by (cases mdl) (auto simp: Let_def)

lemma get_or_create_found:
  "filter (row_matches kw) (table s mdl) = [r] \<Longrightarrow> get_or_create s mdl kw = (Inr r, s)"
  by (simp add: get_or_create_def)

lemma get_or_create_absent:
  "filter (row_matches kw) (table s mdl) = [] \<Longrightarrow>
   get_or_create s mdl kw = (Inr (fst (add_flush s mdl kw)), snd (add_flush s mdl kw))"
  by (simp add: get_or_create_def split: prod.splits)

lemma get_or_create_Inr:
  assumes "get_or_create s mdl kw = (Inr obj, s')"
  shows "(filter (row_matches kw) (table s mdl) = [obj] \<and> s' = s) \<or>
         (filter (row_matches kw) (table s mdl) = [] \<and> add_flush s mdl kw = (obj, s'))"
  using assms
  by (cases "filter (row_matches kw) (table s mdl)" rule: scalar_one_or_none.cases)
     (auto simp: get_or_create_def split: prod.splits)

section \<open>get_or_create\<close>

lemma row_matches_name:
  "row_matches [(c, x)] r = (map_of (row_cols r) c = Some x)"
  by (simp add: row_matches_def)

lemma get_or_create_keeps_match:
  assumes res: "get_or_create s mdl [(c, y)] = (Inr obj, s')"
    and one: "filter (row_matches [(c, x)]) (table s mdl) = [r]"
  shows "filter (row_matches [(c, x)]) (table s' mdl) = [r] \<and> (y = x \<longrightarrow> obj = r)"
proof -
  from get_or_create_Inr [OF res] show ?thesis
  proof
    assume a: "filter (row_matches [(c, y)]) (table s mdl) = [obj] \<and> s' = s"
    then show ?thesis using one by auto
  next
    assume a: "filter (row_matches [(c, y)]) (table s mdl) = [] \<and>
               add_flush s mdl [(c, y)] = (obj, s')"
    then have af: "add_flush s mdl [(c, y)] = (obj, s')" by simp
    from add_flush_table [OF af]
    have tab: "table s' mdl = table s mdl @ [obj]" and cols: "row_cols obj = [(c, y)]"
      by simp_all
    from a one have ne: "y \<noteq> x" by auto
    then have "\<not> row_matches [(c, x)] obj" using cols by (simp add: row_matches_name)
    then show ?thesis using tab one ne by simp
  qed
qed

lemma get_or_create_result_unique:
  assumes res: "get_or_create s mdl [(c, y)] = (Inr obj, s')"
  shows "filter (row_matches [(c, y)]) (table s' mdl) = [obj]"
proof -
  from get_or_create_Inr [OF res] show ?thesis
  proof
    assume "filter (row_matches [(c, y)]) (table s mdl) = [obj] \<and> s' = s"
    then show ?thesis by simp
  next
    assume a: "filter (row_matches [(c, y)]) (table s mdl) = [] \<and>
               add_flush s mdl [(c, y)] = (obj, s')"
    then have af: "add_flush s mdl [(c, y)] = (obj, s')" by simp
    from add_flush_table [OF af]
    have tab: "table s' mdl = table s mdl @ [obj]" and cols: "row_cols obj = [(c, y)]"
      by simp_all
    have "row_matches [(c, y)] obj" using cols by (simp add: row_matches_name)
    then show ?thesis using a tab by simp
  qed
qed

lemma add_flush_frame:
  "add_flush s mdl kw = (obj, s') \<Longrightarrow>
   movies s' = movies s \<and>
   (mdl \<noteq> CountryModel \<longrightarrow> countries s' = countries s) \<and>
   (mdl \<noteq> GenreModel \<longrightarrow> genres s' = genres s) \<and>
   (mdl \<noteq> ActorModel \<longrightarrow> actors s' = actors s) \<and>
   (mdl \<noteq> LanguageModel \<longrightarrow> languages s' = languages s)"
  by (cases mdl) (auto simp: Let_def)

lemma get_or_create_frame:
  assumes "get_or_create s mdl kw = (res, s')"
  shows "movies s' = movies s \<and>
   (mdl \<noteq> CountryModel \<longrightarrow> countries s' = countries s) \<and>
   (mdl \<noteq> GenreModel \<longrightarrow> genres s' = genres s) \<and>
   (mdl \<noteq> ActorModel \<longrightarrow> actors s' = actors s) \<and>
   (mdl \<noteq> LanguageModel \<longrightarrow> languages s' = languages s)"
proof (cases "filter (row_matches kw) (table s mdl)" rule: scalar_one_or_none.cases)
  case 1
  with assms have "add_flush s mdl kw = (fst (add_flush s mdl kw), s')"
    by (simp add: get_or_create_def split: prod.splits)
  then show ?thesis by (rule add_flush_frame)
next
  case (2 x)
  with assms show ?thesis by (simp add: get_or_create_def)
next
  case (3 x y zs)
  with assms show ?thesis by (simp add: get_or_create_def)
qed

lemma get_or_create_each_frame:
  "get_or_create_each s mdl xs = (res, s') \<Longrightarrow>
   movies s' = movies s \<and>
   (mdl \<noteq> CountryModel \<longrightarrow> countries s' = countries s) \<and>
   (mdl \<noteq> GenreModel \<longrightarrow> genres s' = genres s) \<and>
   (mdl \<noteq> ActorModel \<longrightarrow> actors s' = actors s) \<and>
   (mdl \<noteq> LanguageModel \<longrightarrow> languages s' = languages s)"
proof (induction xs arbitrary: s res s')
  case Nil
  then show ?case by simp
next
  case (Cons x xs)
  obtain r1 s1 where g: "get_or_create s mdl [(''name'', x)] = (r1, s1)"
    by (cases "get_or_create s mdl [(''name'', x)]")
  note f1 = get_or_create_frame [OF g]
  show ?case
  proof (cases r1)
    case (Inl e)
    with Cons.prems g f1 show ?thesis by simp
  next
    case (Inr obj)
    obtain r2 s2 where e: "get_or_create_each s1 mdl xs = (r2, s2)"
      by (cases "get_or_create_each s1 mdl xs")
    note f2 = Cons.IH [OF e]
    from Cons.prems g Inr e have "s' = s2" by (cases r2) auto
    with f1 f2 show ?thesis by simp
  qed
qed

lemma get_or_create_each_Cons_Inr:
  assumes "get_or_create_each s mdl (x # xs) = (Inr objs, s')"
  obtains obj s1 rest where "get_or_create s mdl [(''name'', x)] = (Inr obj, s1)"
    and "get_or_create_each s1 mdl xs = (Inr rest, s')" and "objs = obj # rest"
  using assms by (auto split: prod.splits sum.splits)

lemma get_or_create_each_keeps_match:
  "get_or_create_each s mdl xs = (Inr objs, s') \<Longrightarrow>
   filter (row_matches [(''name'', x)]) (table s mdl) = [r] \<Longrightarrow>
   filter (row_matches [(''name'', x)]) (table s' mdl) = [r] \<and>
   length objs = length xs \<and> (\<forall>i<length xs. xs ! i = x \<longrightarrow> objs ! i = r)"
proof (induction xs arbitrary: s objs)
  case Nil
  then show ?case by simp
next
  case (Cons y ys)
  from Cons.prems(1) obtain obj s1 rest
    where g: "get_or_create s mdl [(''name'', y)] = (Inr obj, s1)"
      and e: "get_or_create_each s1 mdl ys = (Inr rest, s')" and o: "objs = obj # rest"
    by (rule get_or_create_each_Cons_Inr)
  from get_or_create_keeps_match [OF g Cons.prems(2)]
  have k1: "filter (row_matches [(''name'', x)]) (table s1 mdl) = [r]"
    and same: "y = x \<longrightarrow> obj = r" by simp_all
  from Cons.IH [OF e k1]
  have k2: "filter (row_matches [(''name'', x)]) (table s' mdl) = [r]"
    and len: "length rest = length ys"
    and rest: "\<forall>i<length ys. ys ! i = x \<longrightarrow> rest ! i = r" by simp_all
  have "\<forall>i<length (y # ys). (y # ys) ! i = x \<longrightarrow> objs ! i = r"
  proof (intro allI impI)
    fix i assume "i < length (y # ys)" and "(y # ys) ! i = x"
    then show "objs ! i = r" using same rest o by (cases i) auto
  qed
  with k2 len o show ?case by simp
qed

lemma get_or_create_each_rows:
  "get_or_create_each s mdl xs = (Inr objs, s') \<Longrightarrow>
   length objs = length xs \<and>
   (\<forall>i<length xs. filter (row_matches [(''name'', xs ! i)]) (table s' mdl) = [objs ! i])"
proof (induction xs arbitrary: s objs)
  case Nil
  then show ?case by simp
next
  case (Cons y ys)
  from Cons.prems(1) obtain obj s1 rest
    where g: "get_or_create s mdl [(''name'', y)] = (Inr obj, s1)"
      and e: "get_or_create_each s1 mdl ys = (Inr rest, s')" and o: "objs = obj # rest"
    by (rule get_or_create_each_Cons_Inr)
  note u = get_or_create_result_unique [OF g]
  from get_or_create_each_keeps_match [OF e u]
  have k: "filter (row_matches [(''name'', y)]) (table s' mdl) = [obj]" by simp
  from Cons.IH [OF e]
  have len: "length rest = length ys"
    and rest: "\<forall>i<length ys. filter (row_matches [(''name'', ys ! i)]) (table s' mdl) = [rest ! i]"
    by simp_all
  have "\<forall>i<length (y # ys).
          filter (row_matches [(''name'', (y # ys) ! i)]) (table s' mdl) = [objs ! i]"
  proof (intro allI impI)
    fix i assume "i < length (y # ys)"
    then show "filter (row_matches [(''name'', (y # ys) ! i)]) (table s' mdl) = [objs ! i]"
      using k rest o by (cases i) auto
  qed
  with len o show ?case by simp
qed

section \<open>The unique constraints\<close>

lemma set_map_filter: "set (List.map_filter f xs) = {y. \<exists>x\<in>set xs. f x = Some y}"
  by (induction xs) (auto simp: List.map_filter_simps split: option.splits)

lemma unique_on_filter:
  "unique_on c rows \<Longrightarrow> length (filter (row_matches [(c, x)]) rows) \<le> 1"
proof (induction rows)
  case Nil
  then show ?case by simp
next
  case (Cons r rs)
  show ?case
  proof (cases "map_of (row_cols r) c = Some x")
    case True
    with Cons.prems have "x \<notin> set (List.map_filter (\<lambda>r. map_of (row_cols r) c) rs)"
      by (simp add: unique_on_def List.map_filter_simps)
    then have "\<forall>r'\<in>set rs. \<not> row_matches [(c, x)] r'"
      by (auto simp: set_map_filter row_matches_name)
    then have "filter (row_matches [(c, x)]) rs = []" by (simp add: filter_empty_conv)
    then show ?thesis by simp
  next
    case False
    from Cons.prems have "unique_on c rs"
      by (auto simp: unique_on_def List.map_filter_simps split: option.splits)
    with Cons.IH False show ?thesis by (simp add: row_matches_name)
  qed
qed

lemma map_filter_snoc:
  "List.map_filter f (xs @ [x]) =
     List.map_filter f xs @ (case f x of None \<Rightarrow> [] | Some y \<Rightarrow> [y])"
  by (induction xs) (auto simp: List.map_filter_simps split: option.splits)

lemma unique_on_snoc:
  assumes "unique_on c rows" and "filter (row_matches [(c, x)]) rows = []"
    and "row_cols obj = [(c, x)]"
  shows "unique_on c (rows @ [obj])"
proof -
  from assms(2) have "\<forall>r\<in>set rows. map_of (row_cols r) c \<noteq> Some x"
    by (simp add: filter_empty_conv row_matches_name)
  then have "x \<notin> set (List.map_filter (\<lambda>r. map_of (row_cols r) c) rows)"
    by (auto simp: set_map_filter)
  with assms(1,3) show ?thesis
    by (simp add: unique_on_def map_filter_snoc)
qed

lemma get_or_create_total:
  assumes "unique_on c (table s mdl)"
  shows "\<exists>obj s'. get_or_create s mdl [(c, x)] = (Inr obj, s') \<and> unique_on c (table s' mdl)"
proof (cases "filter (row_matches [(c, x)]) (table s mdl)")
  case Nil
  obtain obj s' where af: "add_flush s mdl [(c, x)] = (obj, s')"
    by (cases "add_flush s mdl [(c, x)]")
  from add_flush_table [OF af]
  have tab: "table s' mdl = table s mdl @ [obj]" and cols: "row_cols obj = [(c, x)]"
    by simp_all
  have "get_or_create s mdl [(c, x)] = (Inr obj, s')"
    using Nil af by (simp add: get_or_create_absent)
  moreover have "unique_on c (table s' mdl)"
    using unique_on_snoc [OF assms Nil cols] tab by simp
  ultimately show ?thesis by blast
next
  case (Cons r rs)
  with unique_on_filter [OF assms, of x] have "filter (row_matches [(c, x)]) (table s mdl) = [r]"
    by simp
  then have "get_or_create s mdl [(c, x)] = (Inr r, s)" by (rule get_or_create_found)
  with assms show ?thesis by blast
qed

lemma get_or_create_each_total:
  "unique_on ''name'' (table s mdl) \<Longrightarrow>
   \<exists>objs s'. get_or_create_each s mdl xs = (Inr objs, s') \<and> unique_on ''name'' (table s' mdl)"
proof (induction xs arbitrary: s)
  case Nil
  then show ?case by simp
next
  case (Cons x xs)
  from get_or_create_total [OF Cons.prems, of x] obtain obj s1
    where g: "get_or_create s mdl [(''name'', x)] = (Inr obj, s1)"
      and u1: "unique_on ''name'' (table s1 mdl)" by blast
  from Cons.IH [OF u1] obtain objs s2
    where e: "get_or_create_each s1 mdl xs = (Inr objs, s2)"
      and u2: "unique_on ''name'' (table s2 mdl)" by blast
  from g e have "get_or_create_each s mdl (x # xs) = (Inr (obj # objs), s2)" by simp
  with u2 show ?case by blast
qed

lemma get_or_create_each_names:
  assumes "get_or_create_each s mdl xs = (Inr objs, s')"
  shows "map row_name objs = map Some xs"
proof -
  from get_or_create_each_rows [OF assms]
  have len: "length objs = length xs"
    and rows: "\<forall>i<length xs. filter (row_matches [(''name'', xs ! i)]) (table s' mdl) = [objs ! i]"
    by simp_all
  have "\<forall>i<length xs. row_name (objs ! i) = Some (xs ! i)"
  proof (intro allI impI)
    fix i assume "i < length xs"
    with rows have "objs ! i \<in> set (filter (row_matches [(''name'', xs ! i)]) (table s' mdl))"
      by simp
    then show "row_name (objs ! i) = Some (xs ! i)"
      by (simp add: row_matches_name row_name_def)
  qed
  with len show ?thesis by (simp add: list_eq_iff_nth_eq)
qed

lemma get_or_create_each_inj:
  assumes "get_or_create_each s mdl xs = (Inr objs, s')"
  shows "inj_on row_name (set objs)"
proof (rule inj_onI)
  fix a b assume a: "a \<in> set objs" and b: "b \<in> set objs" and eq: "row_name a = row_name b"
  from get_or_create_each_rows [OF assms]
  have len: "length objs = length xs"
    and rows: "\<forall>i<length xs. filter (row_matches [(''name'', xs ! i)]) (table s' mdl) = [objs ! i]"
    by simp_all
  from a obtain i where i: "i < length objs" "objs ! i = a" by (auto simp: in_set_conv_nth)
  from b obtain j where j: "j < length objs" "objs ! j = b" by (auto simp: in_set_conv_nth)
  from get_or_create_each_names [OF assms] have "map row_name objs ! i = map Some xs ! i"
    and "map row_name objs ! j = map Some xs ! j" by simp_all
  with i j len eq have "xs ! i = xs ! j" by simp
  with rows i j len have "[a] = [b]" by metis
  then show "a = b" by simp
qed

section \<open>create_movie: the successful path\<close>

lemma reselect_new:
  assumes "m_id mv = fresh_id (map m_id ms)"
  shows "scalar_one (filter (\<lambda>m. m_id m = m_id mv) (ms @ [mv])) = Inr mv"
proof -
  have "\<forall>m\<in>set ms. m_id m \<noteq> m_id mv"
  proof
    fix m assume "m \<in> set ms"
    then have "m_id m \<in> set (map m_id ms)" by simp
    with fresh_id_notin [of "map m_id ms"] assms show "m_id m \<noteq> m_id mv" by metis
  qed
  then have "filter (\<lambda>m. m_id m = m_id mv) ms = []" by (simp add: filter_empty_conv)
  then show ?thesis by simp
qed

lemma create_movie_resolved:
  assumes "c_date d \<le> today + 365"
    and "filter (same_name_date d) (movies s) = []"
    and "get_or_create s CountryModel [(''code'', c_country d)] = (Inr country, s1)"
    and "get_or_create_each s1 GenreModel (c_genres d) = (Inr gs, s2)"
    and "get_or_create_each s2 ActorModel (c_actors d) = (Inr as, s3)"
    and "get_or_create_each s3 LanguageModel (c_languages d) = (Inr ls, s4)"
  shows "create_movie today s d =
           (Inr (new_movie d (fresh_id (map m_id (movies s4))) country gs as ls),
            s4\<lparr>movies := movies s4 @
              [new_movie d (fresh_id (map m_id (movies s4))) country gs as ls]\<rparr>)"
proof -
  let ?mv = "new_movie d (fresh_id (map m_id (movies s4))) country gs as ls"
  have "m_id ?mv = fresh_id (map m_id (movies s4))" by (simp add: new_movie_def)
  then have "scalar_one (filter (\<lambda>m. m_id m = m_id ?mv) (movies s4 @ [?mv])) = Inr ?mv"
    by (rule reselect_new)
  then show ?thesis using assms
    by (simp add: create_movie_def Let_def)
qed

lemma create_movie_Inr:
  assumes "create_movie today s d = (Inr m, s')"
  obtains country s1 gs s2 as s3 ls s4 where
    "c_date d \<le> today + 365"
    "filter (same_name_date d) (movies s) = []"
    "get_or_create s CountryModel [(''code'', c_country d)] = (Inr country, s1)"
    "get_or_create_each s1 GenreModel (c_genres d) = (Inr gs, s2)"
    "get_or_create_each s2 ActorModel (c_actors d) = (Inr as, s3)"
    "get_or_create_each s3 LanguageModel (c_languages d) = (Inr ls, s4)"
    "m = new_movie d (fresh_id (map m_id (movies s4))) country gs as ls"
    "s' = s4\<lparr>movies := movies s4 @ [m]\<rparr>"
proof -
  from assms have dt: "c_date d \<le> today + 365"
    by (auto simp: create_movie_def split: if_splits)
  from assms dt have nf: "filter (same_name_date d) (movies s) = []"
    by (cases "filter (same_name_date d) (movies s)" rule: scalar_one_or_none.cases)
       (auto simp: create_movie_def)
  obtain rc s1 where g0: "get_or_create s CountryModel [(''code'', c_country d)] = (rc, s1)"
    by (cases "get_or_create s CountryModel [(''code'', c_country d)]")
  from assms dt nf g0 obtain country where c: "rc = Inr country"
    by (cases rc) (auto simp: create_movie_def)
  obtain rg s2 where g1: "get_or_create_each s1 GenreModel (c_genres d) = (rg, s2)"
    by (cases "get_or_create_each s1 GenreModel (c_genres d)")
  from assms dt nf g0 c g1 obtain gs where g: "rg = Inr gs"
    by (cases rg) (auto simp: create_movie_def)
  obtain ra s3 where g2: "get_or_create_each s2 ActorModel (c_actors d) = (ra, s3)"
    by (cases "get_or_create_each s2 ActorModel (c_actors d)")
  from assms dt nf g0 c g1 g g2 obtain as where a: "ra = Inr as"
    by (cases ra) (auto simp: create_movie_def)
  obtain rl s4 where g3: "get_or_create_each s3 LanguageModel (c_languages d) = (rl, s4)"
    by (cases "get_or_create_each s3 LanguageModel (c_languages d)")
  from assms dt nf g0 c g1 g g2 a g3 obtain ls where l: "rl = Inr ls"
    by (cases rl) (auto simp: create_movie_def)
  note r = create_movie_resolved [OF dt nf g0 [unfolded c] g1 [unfolded g] g2 [unfolded a]
      g3 [unfolded l]]
  from r assms have
    "m = new_movie d (fresh_id (map m_id (movies s4))) country gs as ls"
    "s' = s4\<lparr>movies := movies s4 @ [m]\<rparr>" by simp_all
  with that dt nf g0 c g1 g g2 a g3 l show thesis by blast
qed

lemma create_movie_total:
  assumes dt: "c_date d \<le> today + 365"
    and nf: "filter (same_name_date d) (movies s) = []"
    and u: "db_unique s"
  shows "\<exists>m s'. create_movie today s d = (Inr m, s') \<and> db_unique s'"
proof -
  from u have uc: "unique_on ''code'' (table s CountryModel)"
    and ug: "unique_on ''name'' (table s GenreModel)"
    and ua: "unique_on ''name'' (table s ActorModel)"
    and ul: "unique_on ''name'' (table s LanguageModel)"
    by (simp_all add: db_unique_def)
  from get_or_create_total [OF uc] obtain country s1
    where g0: "get_or_create s CountryModel [(''code'', c_country d)] = (Inr country, s1)"
      and uc1: "unique_on ''code'' (table s1 CountryModel)" by blast
  note f0 = get_or_create_frame [OF g0]
  from f0 ug have ug1: "unique_on ''name'' (table s1 GenreModel)" by simp
  from get_or_create_each_total [OF ug1] obtain gs s2
    where g1: "get_or_create_each s1 GenreModel (c_genres d) = (Inr gs, s2)"
      and ug2: "unique_on ''name'' (table s2 GenreModel)" by blast
  note f1 = get_or_create_each_frame [OF g1]
  from f0 f1 ua have ua2: "unique_on ''name'' (table s2 ActorModel)" by simp
  from get_or_create_each_total [OF ua2] obtain as s3
    where g2: "get_or_create_each s2 ActorModel (c_actors d) = (Inr as, s3)"
      and ua3: "unique_on ''name'' (table s3 ActorModel)" by blast
  note f2 = get_or_create_each_frame [OF g2]
  from f0 f1 f2 ul have ul3: "unique_on ''name'' (table s3 LanguageModel)" by simp
  from get_or_create_each_total [OF ul3] obtain ls s4
    where g3: "get_or_create_each s3 LanguageModel (c_languages d) = (Inr ls, s4)"
      and ul4: "unique_on ''name'' (table s4 LanguageModel)" by blast
  note f3 = get_or_create_each_frame [OF g3]
  note r = create_movie_resolved [OF dt nf g0 g1 g2 g3]
  have "unique_on ''code'' (countries s4)" using uc1 f1 f2 f3 by simp
  moreover have "unique_on ''name'' (genres s4)" using ug2 f2 f3 by simp
  moreover have "unique_on ''name'' (actors s4)" using ua3 f3 by simp
  moreover have "unique_on ''name'' (languages s4)" using ul4 by simp
  ultimately have "db_unique (s4\<lparr>movies := movies s4 @
      [new_movie d (fresh_id (map m_id (movies s4))) country gs as ls]\<rparr>)"
    by (simp add: db_unique_def)
  with r show ?thesis by blast
qed

lemma names_rows:
  assumes "map row_name rs = map Some xs" and "inj_on row_name (set rs)"
  shows "row_name ` set rs = Some ` set xs \<and> card (set rs) = card (set xs) \<and>
         length rs = length xs"
proof -
  from assms(1) have "set (map row_name rs) = set (map Some xs)" by simp
  then have img: "row_name ` set rs = Some ` set xs" by simp
  from assms(2) have "card (row_name ` set rs) = card (set rs)" by (rule card_image)
  moreover have "card (Some ` set xs) = card (set xs)" by (simp add: card_image)
  ultimately have "card (set rs) = card (set xs)" using img by simp
  moreover from assms(1) have "length rs = length xs" by (rule map_eq_imp_length_eq)
  ultimately show ?thesis using img by simp
qed

lemma create_movie_relation_rows:
  assumes "create_movie today s d = (Inr m, s')"
  shows "\<exists>gs as ls.
           m_genres m = set gs \<and> m_actors m = set as \<and> m_languages m = set ls \<and>
           map row_name gs = map Some (c_genres d) \<and> inj_on row_name (set gs) \<and>
           map row_name as = map Some (c_actors d) \<and> inj_on row_name (set as) \<and>
           map row_name ls = map Some (c_languages d) \<and> inj_on row_name (set ls)"
proof -
  from assms obtain country s1 gs s2 as s3 ls s4 where
    g1: "get_or_create_each s1 GenreModel (c_genres d) = (Inr gs, s2)" and
    g2: "get_or_create_each s2 ActorModel (c_actors d) = (Inr as, s3)" and
    g3: "get_or_create_each s3 LanguageModel (c_languages d) = (Inr ls, s4)" and
    m: "m = new_movie d (fresh_id (map m_id (movies s4))) country gs as ls"
    by (rule create_movie_Inr)
  from m have "m_genres m = set gs" "m_actors m = set as" "m_languages m = set ls"
    by (simp_all add: new_movie_def association_def)
  then show ?thesis
    using get_or_create_each_names [OF g1] get_or_create_each_inj [OF g1]
      get_or_create_each_names [OF g2] get_or_create_each_inj [OF g2]
      get_or_create_each_names [OF g3] get_or_create_each_inj [OF g3]
    by blast
qed

lemma create_movie_relation_sets:
  assumes "create_movie today s d = (Inr m, s')"
  shows "row_name ` m_genres m = Some ` set (c_genres d) \<and>
         row_name ` m_actors m = Some ` set (c_actors d) \<and>
         row_name ` m_languages m = Some ` set (c_languages d) \<and>
         card (m_genres m) = card (set (c_genres d)) \<and>
         card (m_actors m) = card (set (c_actors d)) \<and>
         card (m_languages m) = card (set (c_languages d)) \<and>
         inj_on row_name (m_genres m) \<and> inj_on row_name (m_actors m) \<and>
         inj_on row_name (m_languages m) \<and>
         finite (m_genres m) \<and> finite (m_actors m) \<and> finite (m_languages m)"
proof -
  from create_movie_relation_rows [OF assms] obtain gs as ls where
    r: "m_genres m = set gs" "m_actors m = set as" "m_languages m = set ls" and
    g: "map row_name gs = map Some (c_genres d)" "inj_on row_name (set gs)" and
    a: "map row_name as = map Some (c_actors d)" "inj_on row_name (set as)" and
    l: "map row_name ls = map Some (c_languages d)" "inj_on row_name (set ls)"
    by blast
  from names_rows [OF g] names_rows [OF a] names_rows [OF l] r g(2) a(2) l(2)
  show ?thesis by simp
qed

section \<open>create_movie: the failing paths\<close>

lemma get_or_create_Inl:
  assumes "get_or_create s mdl kw = (Inl e, s')"
  shows "e = MultipleResultsFound \<and> s' = s"
  using assms
  by (cases "filter (row_matches kw) (table s mdl)" rule: scalar_one_or_none.cases)
     (auto simp: get_or_create_def split: prod.splits)

lemma get_or_create_each_Inl:
  "get_or_create_each s mdl xs = (Inl e, s') \<Longrightarrow> e = MultipleResultsFound"
proof (induction xs arbitrary: s)
  case Nil
  then show ?case by simp
next
  case (Cons x xs)
  obtain r1 s1 where g: "get_or_create s mdl [(''name'', x)] = (r1, s1)"
    by (cases "get_or_create s mdl [(''name'', x)]")
  show ?case
  proof (cases r1)
    case (Inl e1)
    with Cons.prems g have "e = e1" by simp
    with g Inl get_or_create_Inl show ?thesis by blast
  next
    case (Inr obj)
    obtain r2 s2 where e2: "get_or_create_each s1 mdl xs = (r2, s2)"
      by (cases "get_or_create_each s1 mdl xs")
    with Cons.prems g Inr have "r2 = Inl e \<and> s2 = s'" by (cases r2) auto
    with e2 Cons.IH show ?thesis by blast
  qed
qed

lemma create_movie_Inl:
  assumes res: "create_movie today s d = (Inl e, s')"
  shows "(today + 365 < c_date d \<and> e = HTTPException 400 [Text ''Invalid input data.''] \<and> s' = s) \<or>
         (c_date d \<le> today + 365 \<and> length (filter (same_name_date d) (movies s)) = 1 \<and>
            e = HTTPException 409 (conflict_detail d) \<and> s' = s) \<or>
         (c_date d \<le> today + 365 \<and> e = MultipleResultsFound)"
proof (cases "today + 365 < c_date d")
  case True
  with res show ?thesis by (simp add: create_movie_def)
next
  case False
  then have dt: "c_date d \<le> today + 365" by simp
  show ?thesis
  proof (cases "filter (same_name_date d) (movies s)" rule: scalar_one_or_none.cases)
    case (2 x)
    with res dt show ?thesis by (simp add: create_movie_def)
  next
    case (3 x y zs)
    with res dt show ?thesis by (simp add: create_movie_def)
  next
    case 1
    obtain rc s1 where g0: "get_or_create s CountryModel [(''code'', c_country d)] = (rc, s1)"
      by (cases "get_or_create s CountryModel [(''code'', c_country d)]")
    show ?thesis
    proof (cases rc)
      case (Inl e0)
      with res dt 1 g0 have "e = e0" by (simp add: create_movie_def)
      with g0 Inl get_or_create_Inl dt show ?thesis by blast
    next
      case c: (Inr country)
      obtain rg s2 where g1: "get_or_create_each s1 GenreModel (c_genres d) = (rg, s2)"
        by (cases "get_or_create_each s1 GenreModel (c_genres d)")
      show ?thesis
      proof (cases rg)
        case (Inl e1)
        with res dt 1 g0 c g1 have "e = e1" by (simp add: create_movie_def)
        with g1 Inl get_or_create_each_Inl dt show ?thesis by blast
      next
        case g: (Inr gs)
        obtain ra s3 where g2: "get_or_create_each s2 ActorModel (c_actors d) = (ra, s3)"
          by (cases "get_or_create_each s2 ActorModel (c_actors d)")
        show ?thesis
        proof (cases ra)
          case (Inl e2)
          with res dt 1 g0 c g1 g g2 have "e = e2" by (simp add: create_movie_def)
          with g2 Inl get_or_create_each_Inl dt show ?thesis by blast
        next
          case a: (Inr as)
          obtain rl s4 where g3: "get_or_create_each s3 LanguageModel (c_languages d) = (rl, s4)"
            by (cases "get_or_create_each s3 LanguageModel (c_languages d)")
          show ?thesis
          proof (cases rl)
            case (Inl e3)
            with res dt 1 g0 c g1 g g2 a g3 have "e = e3" by (simp add: create_movie_def)
            with g3 Inl get_or_create_each_Inl dt show ?thesis by blast
          next
            case l: (Inr ls)
            from create_movie_resolved [OF dt 1 g0 [unfolded c] g1 [unfolded g]
                g2 [unfolded a] g3 [unfolded l]] res
            show ?thesis by simp
          qed
        qed
      qed
    qed
  qed
qed

lemma create_movie_Inl_movies:
  assumes res: "create_movie today s d = (Inl e, s')"
  shows "movies s' = movies s"
proof (cases "today + 365 < c_date d")
  case True
  with res show ?thesis by (simp add: create_movie_def)
next
  case False
  then have dt: "c_date d \<le> today + 365" by simp
  show ?thesis
  proof (cases "filter (same_name_date d) (movies s)" rule: scalar_one_or_none.cases)
    case (2 x)
    with res dt show ?thesis by (simp add: create_movie_def)
  next
    case (3 x y zs)
    with res dt show ?thesis by (simp add: create_movie_def)
  next
    case 1
    obtain rc s1 where g0: "get_or_create s CountryModel [(''code'', c_country d)] = (rc, s1)"
      by (cases "get_or_create s CountryModel [(''code'', c_country d)]")
    from get_or_create_frame [OF g0] have f0: "movies s1 = movies s" by simp
    show ?thesis
    proof (cases rc)
      case (Inl e0)
      with res dt 1 g0 have "s' = s1" by (simp add: create_movie_def)
      with f0 show ?thesis by simp
    next
      case c: (Inr country)
      obtain rg s2 where g1: "get_or_create_each s1 GenreModel (c_genres d) = (rg, s2)"
        by (cases "get_or_create_each s1 GenreModel (c_genres d)")
      from get_or_create_each_frame [OF g1] f0 have f1: "movies s2 = movies s" by simp
      show ?thesis
      proof (cases rg)
        case (Inl e1)
        with res dt 1 g0 c g1 have "s' = s2" by (simp add: create_movie_def)
        with f1 show ?thesis by simp
      next
        case g: (Inr gs)
        obtain ra s3 where g2: "get_or_create_each s2 ActorModel (c_actors d) = (ra, s3)"
          by (cases "get_or_create_each s2 ActorModel (c_actors d)")
        from get_or_create_each_frame [OF g2] f1 have f2: "movies s3 = movies s" by simp
        show ?thesis
        proof (cases ra)
          case (Inl e2)
          with res dt 1 g0 c g1 g g2 have "s' = s3" by (simp add: create_movie_def)
          with f2 show ?thesis by simp
        next
          case a: (Inr as)
          obtain rl s4 where g3: "get_or_create_each s3 LanguageModel (c_languages d) = (rl, s4)"
            by (cases "get_or_create_each s3 LanguageModel (c_languages d)")
          from get_or_create_each_frame [OF g3] f2 have f3: "movies s4 = movies s" by simp
          show ?thesis
          proof (cases rl)
            case (Inl e3)
            with res dt 1 g0 c g1 g g2 a g3 have "s' = s4" by (simp add: create_movie_def)
            with f3 show ?thesis by simp
          next
            case l: (Inr ls)
            from create_movie_resolved [OF dt 1 g0 [unfolded c] g1 [unfolded g]
                g2 [unfolded a] g3 [unfolded l]] res
            show ?thesis by simp
          qed
        qed
      qed
    qed
  qed
qed

lemma create_movie_Inr_movies:
  assumes "create_movie today s d = (Inr m, s')"
  shows "movies s' = movies s @ [m] \<and> m_date m = Some (c_date d) \<and> c_date d \<le> today + 365"
proof -
  from assms obtain country s1 gs s2 as s3 ls s4 where
    dt: "c_date d \<le> today + 365" and
    g0: "get_or_create s CountryModel [(''code'', c_country d)] = (Inr country, s1)" and
    g1: "get_or_create_each s1 GenreModel (c_genres d) = (Inr gs, s2)" and
    g2: "get_or_create_each s2 ActorModel (c_actors d) = (Inr as, s3)" and
    g3: "get_or_create_each s3 LanguageModel (c_languages d) = (Inr ls, s4)" and
    m: "m = new_movie d (fresh_id (map m_id (movies s4))) country gs as ls" and
    s': "s' = s4\<lparr>movies := movies s4 @ [m]\<rparr>"
    by (rule create_movie_Inr)
  from get_or_create_frame [OF g0] get_or_create_each_frame [OF g1]
    get_or_create_each_frame [OF g2] get_or_create_each_frame [OF g3]
  have "movies s4 = movies s" by simp
  with s' m dt show ?thesis by (simp add: new_movie_def)
qed

lemma unique_name_date_filter:
  "unique_name_date ms \<Longrightarrow> length (filter (same_name_date d) ms) \<le> 1"
proof (induction ms)
  case Nil
  then show ?case by simp
next
  case (Cons m ms)
  from Cons.prems have u: "unique_name_date ms"
    and nm: "(m_name m, m_date m) \<notin> (\<lambda>m. (m_name m, m_date m)) ` set ms"
    by (simp_all add: unique_name_date_def)
  show ?case
  proof (cases "same_name_date d m")
    case True
    with nm have "\<forall>m'\<in>set ms. \<not> same_name_date d m'"
      by (auto simp: same_name_date_def image_iff)
    then have "filter (same_name_date d) ms = []" by (simp add: filter_empty_conv)
    with True show ?thesis by simp
  next
    case False
    with Cons.IH [OF u] show ?thesis by simp
  qed
qed

lemma create_movie_conflict:
  assumes dt: "c_date d \<le> today + 365"
    and u: "unique_name_date (movies s)"
    and m: "m \<in> set (movies s)" and same: "same_name_date d m"
  shows "create_movie today s d = (Inl (HTTPException 409 (conflict_detail d)), s)"
proof -
  from m same have "filter (same_name_date d) (movies s) \<noteq> []"
    by (auto simp: filter_empty_conv)
  with unique_name_date_filter [OF u, of d]
  obtain x where "filter (same_name_date d) (movies s) = [x]"
    by (cases "filter (same_name_date d) (movies s)" rule: scalar_one_or_none.cases) auto
  with dt show ?thesis by (simp add: create_movie_def)
qed

lemma create_movie_http_movies_only:
  assumes "create_movie today s d = (Inl (HTTPException code detail), s')"
    and "movies s2 = movies s"
  shows "create_movie today s2 d = (Inl (HTTPException code detail), s2)"
proof -
  from create_movie_Inl [OF assms(1)]
  consider "today + 365 < c_date d" "code = 400" "detail = [Text ''Invalid input data.'']"
    | x where "c_date d \<le> today + 365" "filter (same_name_date d) (movies s) = [x]"
        "code = 409" "detail = conflict_detail d"
    by (cases "filter (same_name_date d) (movies s)" rule: scalar_one_or_none.cases) auto
  then show ?thesis
  proof cases
    case 1
    then show ?thesis by (simp add: create_movie_def)
  next
    case 2
    with assms(2) show ?thesis by (simp add: create_movie_def)
  qed
qed

section \<open>Evaluating the examples\<close>

lemmas eval_defs = create_movie_def get_or_create_def row_matches_def fresh_id_def new_movie_def
  association_def
  same_name_date_def overview_or_empty_def conflict_detail_def Let_def
  empty_db_def heat_def heat_movie_def heat_db_def heat_postponed_def casino_def

lemma create_heat: "create_movie 739000 empty_db heat = (Inr heat_movie, heat_db)"
  by code_simp

section \<open>Create: the date check\<close>

text \<open>
  C8. A create input whose release date is more than 365 days after the current date
  fails with the HTTP 400 exception of the handler, for every store and whatever the other
  fields are, and the store is left as it was. A release date at most 365 days after the
  current date (the 365th day included) never gives an HTTP 400 exception.
\<close>

theorem create_movie_date_check:
  "(today + 365 < c_date d \<longrightarrow>
      create_movie today s d = (Inl (HTTPException 400 [Text ''Invalid input data.'']), s)) \<and>
   (c_date d \<le> today + 365 \<longrightarrow>
      (\<forall>detail s'. create_movie today s d \<noteq> (Inl (HTTPException 400 detail), s')))"
proof (intro conjI impI allI)
  assume "today + 365 < c_date d"
  then show "create_movie today s d = (Inl (HTTPException 400 [Text ''Invalid input data.'']), s)"
    by (simp add: create_movie_def)
next
  fix detail s'
  assume le: "c_date d \<le> today + 365"
  show "create_movie today s d \<noteq> (Inl (HTTPException 400 detail), s')"
  proof
    assume "create_movie today s d = (Inl (HTTPException 400 detail), s')"
    from create_movie_Inl [OF this] le show False by auto
  qed
qed

text \<open>
  On the day 739000 the day 739366 is rejected and the day 739365, the 365th day after,
  is not.
\<close>

theorem create_movie_date_check_witness:
  "(739000 :: int) + 365 < c_date (heat\<lparr>c_date := 739366\<rparr>) \<and>
   create_movie 739000 heat_db (heat\<lparr>c_date := 739366\<rparr>) =
     (Inl (HTTPException 400 [Text ''Invalid input data.'']), heat_db) \<and>
   c_date (heat\<lparr>c_date := 739365\<rparr>) \<le> 739000 + 365 \<and>
   create_movie 739000 heat_db (heat\<lparr>c_date := 739365\<rparr>) \<noteq>
     (Inl (HTTPException 400 [Text ''Invalid input data.'']), heat_db)"
  using create_movie_date_check [of 739000 "heat\<lparr>c_date := 739366\<rparr>" heat_db]
    create_movie_date_check [of 739000 "heat\<lparr>c_date := 739365\<rparr>" heat_db]
  by (simp add: heat_def)

section \<open>Create: a failed check creates no reference row\<close>

text \<open>
  C3. When \<open>create_movie\<close> raises an HTTP exception, the exception is the 400 of the
  date check or the 409 of the (name, date) check, the session is in the state the request
  found (no country, genre, actor or language row was created), and the same exception is
  raised on every store with the same movies, whatever its reference tables hold: both
  checks are decided before any reference row is resolved. The same holds at the endpoint,
  where a body that the schema rejects also leaves the store as it was.
\<close>

theorem create_failure_creates_no_rows:
  "(create_movie today s d = (Inl (HTTPException code detail), s') \<longrightarrow>
      s' = s \<and> (code = 400 \<or> code = 409) \<and>
      (\<forall>s2. movies s2 = movies s \<longrightarrow>
         create_movie today s2 d = (Inl (HTTPException code detail), s2))) \<and>
   (post_movies today s d = (Inl (HTTPException code detail), s') \<longrightarrow> s' = s) \<and>
   (post_movies today s d = (Inl (ValidationError errs), s') \<longrightarrow> s' = s)"
proof (intro conjI impI)
  assume a: "create_movie today s d = (Inl (HTTPException code detail), s')"
  from create_movie_Inl [OF a] show "s' = s" by auto
  from create_movie_Inl [OF a] show "code = 400 \<or> code = 409" by auto
  from create_movie_http_movies_only [OF a]
  show "\<forall>s2. movies s2 = movies s \<longrightarrow>
          create_movie today s2 d = (Inl (HTTPException code detail), s2)" by blast
next
  assume a: "post_movies today s d = (Inl (HTTPException code detail), s')"
  then have "create_movie today s d = (Inl (HTTPException code detail), s')"
    by (auto simp: post_movies_def MovieCreateSchema_def split: if_splits)
  from create_movie_Inl [OF this] show "s' = s" by auto
next
  assume a: "post_movies today s d = (Inl (ValidationError errs), s')"
  show "s' = s"
  proof (cases "create_errors d = []")
    case True
    with a have "create_movie today s d = (Inl (ValidationError errs), s')"
      by (simp add: post_movies_def MovieCreateSchema_def)
    from create_movie_Inl [OF this] show ?thesis by auto
  next
    case False
    with a show ?thesis by (simp add: post_movies_def MovieCreateSchema_def)
  qed
qed

text \<open>
  Creating the stored movie again is a 409 that leaves the store as it was, and is the
  same 409 on the store with the genre and actor tables emptied.
\<close>

theorem create_failure_creates_no_rows_witness:
  "create_movie 739000 heat_db heat = (Inl (HTTPException 409 (conflict_detail heat)), heat_db) \<and>
   create_movie 739000 (heat_db\<lparr>genres := [], actors := []\<rparr>) heat =
     (Inl (HTTPException 409 (conflict_detail heat)), heat_db\<lparr>genres := [], actors := []\<rparr>) \<and>
   post_movies 739000 heat_db heat = (Inl (HTTPException 409 (conflict_detail heat)), heat_db) \<and>
   post_movies 739000 heat_db (heat\<lparr>c_score := Finite 101\<rparr>) =
     (Inl (ValidationError [(''score'', ''Score must be between 0 and 100'')]), heat_db)"
proof -
  have h1: "create_movie 739000 heat_db heat =
              (Inl (HTTPException 409 (conflict_detail heat)), heat_db)"
    by (simp add: eval_defs)
  have h2: "post_movies 739000 heat_db heat =
              (Inl (HTTPException 409 (conflict_detail heat)), heat_db)"
    using h1
    by (simp add: post_movies_def MovieCreateSchema_def create_errors_def field_errors_def
        max_length_255_def validate_score_def validate_money_def heat_def)
  have h3: "post_movies 739000 heat_db (heat\<lparr>c_score := Finite 101\<rparr>) =
     (Inl (ValidationError [(''score'', ''Score must be between 0 and 100'')]), heat_db)"
    by (simp add: post_movies_def MovieCreateSchema_def create_errors_def field_errors_def
        max_length_255_def validate_score_def validate_money_def heat_def)
  note t = create_failure_creates_no_rows
    [of 739000 heat_db heat 409 "conflict_detail heat" heat_db]
  from t h1 have "\<forall>s2. movies s2 = movies heat_db \<longrightarrow>
          create_movie 739000 s2 heat = (Inl (HTTPException 409 (conflict_detail heat)), s2)"
    by blast
  then have "create_movie 739000 (heat_db\<lparr>genres := [], actors := []\<rparr>) heat =
     (Inl (HTTPException 409 (conflict_detail heat)), heat_db\<lparr>genres := [], actors := []\<rparr>)"
    by simp
  with h1 h2 h3 show ?thesis by simp
qed

section \<open>Partial update\<close>

lemma apply_dump:
  "foldl setattr m (dump_field Set_name v) = m\<lparr>m_name := (case v of None \<Rightarrow> m_name m | Some x \<Rightarrow> x)\<rparr>"
  "foldl setattr m (dump_field (\<lambda>u. Set_date None) w) = m\<lparr>m_date := (case w of None \<Rightarrow> m_date m | Some u \<Rightarrow> None)\<rparr>"
  "foldl setattr m (dump_field Set_score f) = m\<lparr>m_score := (case f of None \<Rightarrow> m_score m | Some x \<Rightarrow> x)\<rparr>"
  "foldl setattr m (dump_field Set_overview v) = m\<lparr>m_overview := (case v of None \<Rightarrow> m_overview m | Some x \<Rightarrow> x)\<rparr>"
  "foldl setattr m (dump_field Set_status v) = m\<lparr>m_status := (case v of None \<Rightarrow> m_status m | Some x \<Rightarrow> x)\<rparr>"
  "foldl setattr m (dump_field Set_budget f) = m\<lparr>m_budget := (case f of None \<Rightarrow> m_budget m | Some x \<Rightarrow> x)\<rparr>"
  "foldl setattr m (dump_field Set_revenue f) = m\<lparr>m_revenue := (case f of None \<Rightarrow> m_revenue m | Some x \<Rightarrow> x)\<rparr>"
  by (simp_all add: dump_field_def split: option.splits)

lemma foldl_setattr_dump:
  "foldl setattr mv (model_dump_exclude_unset d) =
     mv\<lparr>m_name := (case u_name d of None \<Rightarrow> m_name mv | Some x \<Rightarrow> x),
        m_date := (case u_date d of None \<Rightarrow> m_date mv | Some u \<Rightarrow> None),
        m_score := (case u_score d of None \<Rightarrow> m_score mv | Some x \<Rightarrow> x),
        m_overview := (case u_overview d of None \<Rightarrow> m_overview mv | Some x \<Rightarrow> x),
        m_status := (case u_status d of None \<Rightarrow> m_status mv | Some x \<Rightarrow> x),
        m_budget := (case u_budget d of None \<Rightarrow> m_budget mv | Some x \<Rightarrow> x),
        m_revenue := (case u_revenue d of None \<Rightarrow> m_revenue mv | Some x \<Rightarrow> x)\<rparr>"
  by (simp add: model_dump_exclude_unset_def apply_dump cong: option.case_cong)

lemma select_by_id:
  assumes "distinct (map m_id ms)" and "mv \<in> set ms"
  shows "filter (\<lambda>m. int (m_id m) = int (m_id mv)) ms = [mv]"
  using assms
proof (induction ms)
  case Nil
  then show ?case by simp
next
  case (Cons a ms)
  show ?case
  proof (cases "a = mv")
    case True
    with Cons.prems have "m_id mv \<notin> m_id ` set ms" by simp
    then have "\<forall>m\<in>set ms. m_id m \<noteq> m_id mv" by (metis imageI)
    then have "filter (\<lambda>m. int (m_id m) = int (m_id mv)) ms = []"
      by (simp add: filter_empty_conv)
    with True show ?thesis by simp
  next
    case False
    with Cons.prems have "mv \<in> set ms" and "distinct (map m_id ms)" and "m_id a \<noteq> m_id mv"
      by auto
    with Cons.IH show ?thesis by simp
  qed
qed

lemma update_movie_found:
  assumes "distinct (map m_id (movies s))" and "mv \<in> set (movies s)"
  shows "update_movie s (int (m_id mv)) d =
     (Inr [(''detail'', ''Movie updated successfully.'')],
      s\<lparr>movies := map (\<lambda>m. if int (m_id m) = int (m_id mv)
                              then foldl setattr mv (model_dump_exclude_unset d) else m)
                     (movies s)\<rparr>)"
  using select_by_id [OF assms] by (simp add: update_movie_def)

lemma replace_by_id:
  assumes "distinct (map m_id ms)" and "mv \<in> set ms"
  shows "map (\<lambda>m. if int (m_id m) = int (m_id mv) then mv' else m) ms =
         map (\<lambda>m. if m = mv then mv' else m) ms"
proof (rule map_cong [OF refl])
  fix m assume "m \<in> set ms"
  with assms have "(m_id m = m_id mv) = (m = mv)"
    by (metis distinct_map inj_on_def)
  then show "(if int (m_id m) = int (m_id mv) then mv' else m) = (if m = mv then mv' else m)"
    by simp
qed

lemma update_movie_result:
  assumes "distinct (map m_id (movies s))" and "mv \<in> set (movies s)"
  shows "update_movie s (int (m_id mv)) d =
     (Inr [(''detail'', ''Movie updated successfully.'')],
      s\<lparr>movies := map (\<lambda>m. if m = mv then foldl setattr mv (model_dump_exclude_unset d) else m)
                     (movies s)\<rparr>)"
  using update_movie_found [OF assms, of d] replace_by_id [OF assms] by simp

text \<open>
  C7. For a movie of the store (ids being the primary key) and every partial update, the
  handler succeeds and returns only the success marker. In the store exactly that movie
  is replaced, every other movie and every reference table is as before. Of the replaced
  movie, a field the input omitted has its prior value and a field the input set has the
  value sent, \<open>None\<close> when \<open>null\<close> was sent (so an overview sent as \<open>null\<close> is
  cleared, an omitted one is kept). The date, whose field has the type \<open>NoneType\<close>, is
  kept when omitted and \<open>None\<close> when \<open>null\<close> was sent. The id, the country and the
  three relations are never changed.
\<close>

theorem update_movie_changes_only_set_fields:
  assumes "distinct (map m_id (movies s))" and "mv \<in> set (movies s)"
  shows "\<exists>mv'. update_movie s (int (m_id mv)) d =
            (Inr [(''detail'', ''Movie updated successfully.'')],
             s\<lparr>movies := map (\<lambda>m. if m = mv then mv' else m) (movies s)\<rparr>) \<and>
          m_name mv' = (case u_name d of None \<Rightarrow> m_name mv | Some v \<Rightarrow> v) \<and>
          m_date mv' = (case u_date d of None \<Rightarrow> m_date mv | Some u \<Rightarrow> None) \<and>
          m_score mv' = (case u_score d of None \<Rightarrow> m_score mv | Some v \<Rightarrow> v) \<and>
          m_overview mv' = (case u_overview d of None \<Rightarrow> m_overview mv | Some v \<Rightarrow> v) \<and>
          m_status mv' = (case u_status d of None \<Rightarrow> m_status mv | Some v \<Rightarrow> v) \<and>
          m_budget mv' = (case u_budget d of None \<Rightarrow> m_budget mv | Some v \<Rightarrow> v) \<and>
          m_revenue mv' = (case u_revenue d of None \<Rightarrow> m_revenue mv | Some v \<Rightarrow> v) \<and>
          m_id mv' = m_id mv \<and> m_country mv' = m_country mv \<and>
          m_genres mv' = m_genres mv \<and> m_actors mv' = m_actors mv \<and>
          m_languages mv' = m_languages mv"
proof -
  let ?mv' = "foldl setattr mv (model_dump_exclude_unset d)"
  note r = update_movie_result [OF assms, of d]
  have f: "m_name ?mv' = (case u_name d of None \<Rightarrow> m_name mv | Some v \<Rightarrow> v)"
    "m_date ?mv' = (case u_date d of None \<Rightarrow> m_date mv | Some u \<Rightarrow> None)"
    "m_score ?mv' = (case u_score d of None \<Rightarrow> m_score mv | Some v \<Rightarrow> v)"
    "m_overview ?mv' = (case u_overview d of None \<Rightarrow> m_overview mv | Some v \<Rightarrow> v)"
    "m_status ?mv' = (case u_status d of None \<Rightarrow> m_status mv | Some v \<Rightarrow> v)"
    "m_budget ?mv' = (case u_budget d of None \<Rightarrow> m_budget mv | Some v \<Rightarrow> v)"
    "m_revenue ?mv' = (case u_revenue d of None \<Rightarrow> m_revenue mv | Some v \<Rightarrow> v)"
    by (simp_all add: foldl_setattr_dump)
  have g: "m_id ?mv' = m_id mv" "m_country ?mv' = m_country mv"
    "m_genres ?mv' = m_genres mv" "m_actors ?mv' = m_actors mv"
    "m_languages ?mv' = m_languages mv"
    by (simp_all add: foldl_setattr_dump)
  from r f g show ?thesis by blast
qed

text \<open>
  The update \<open>{"score": 50}\<close> changes only the score of the stored movie, and
  \<open>{"overview": null}\<close> only clears its overview.
\<close>

theorem update_movie_changes_only_set_fields_witness:
  "distinct (map m_id (movies heat_db)) \<and> heat_movie \<in> set (movies heat_db) \<and>
   update_movie heat_db 1 score_only =
     (Inr [(''detail'', ''Movie updated successfully.'')],
      heat_db\<lparr>movies := [heat_movie\<lparr>m_score := Some (Finite 50)\<rparr>]\<rparr>) \<and>
   update_movie heat_db 1 clear_overview =
     (Inr [(''detail'', ''Movie updated successfully.'')],
      heat_db\<lparr>movies := [heat_movie\<lparr>m_overview := None\<rparr>]\<rparr>)"
proof -
  have h: "distinct (map m_id (movies heat_db))" "heat_movie \<in> set (movies heat_db)"
    by (simp_all add: heat_db_def)
  have i: "int (m_id heat_movie) = 1" by (simp add: heat_movie_def)
  from update_movie_changes_only_set_fields [OF h, of score_only]
    update_movie_changes_only_set_fields [OF h, of clear_overview]
  show ?thesis
    unfolding i
    by (simp add: update_movie_def score_only_def clear_overview_def heat_db_def heat_movie_def
        model_dump_exclude_unset_def dump_field_def)
qed

lemma update_errors_date:
  "((''date'', ''Input should be None'') \<in> set (update_errors b)) = (\<exists>dt. b_date b = Some (Some dt))"
proof (cases "b_date b")
  case None
  then show ?thesis
    by (auto simp: update_errors_def set_field_errors_def field_errors_def
        split: option.splits sum.splits)
next
  case (Some v)
  show ?thesis
  proof (cases v)
    case None
    with Some show ?thesis
      by (auto simp: update_errors_def set_field_errors_def field_errors_def none_required_def
          split: option.splits sum.splits)
  next
    case (Some dt)
    with \<open>b_date b = Some v\<close> show ?thesis
      by (simp add: update_errors_def set_field_errors_def field_errors_def none_required_def)
  qed
qed

text \<open>
  C10. The claim holds of the handler as it is written, which has no date rule, and fails
  on the schema: the declaration \<open>date: Optional[date] = None\<close> gives the field the type
  \<open>NoneType\<close>. Every body that sends a date, whether or not it is more than 365 days
  after the current date, is rejected with a field error for \<open>date\<close> before the handler
  runs, and the store is left as it was; \<open>date\<close> is reported exactly when a date was
  sent.
\<close>

theorem patch_movie_rejects_every_date:
  "(b_date b = Some (Some dt) \<longrightarrow>
      (\<exists>errs. MovieUpdateSchema b = Inl (ValidationError errs) \<and>
              (''date'', ''Input should be None'') \<in> set errs \<and>
              patch_movie s movie_id b = (Inl (ValidationError errs), s))) \<and>
   (((''date'', ''Input should be None'') \<in> set (update_errors b)) =
      (\<exists>dt. b_date b = Some (Some dt)))"
proof (intro conjI impI)
  assume a: "b_date b = Some (Some dt)"
  then have m: "(''date'', ''Input should be None'') \<in> set (update_errors b)"
    by (simp add: update_errors_date)
  then have ne: "update_errors b \<noteq> []" by auto
  then have "MovieUpdateSchema b = Inl (ValidationError (update_errors b))"
    by (simp add: MovieUpdateSchema_def)
  moreover from this
  have "patch_movie s movie_id b = (Inl (ValidationError (update_errors b)), s)"
    by (simp add: patch_movie_def)
  ultimately show "\<exists>errs. MovieUpdateSchema b = Inl (ValidationError errs) \<and>
              (''date'', ''Input should be None'') \<in> set errs \<and>
              patch_movie s movie_id b = (Inl (ValidationError errs), s)"
    using m by blast
next
  show "((''date'', ''Input should be None'') \<in> set (update_errors b)) =
          (\<exists>dt. b_date b = Some (Some dt))"
    by (rule update_errors_date)
qed

text \<open>
  On the day 739000 a partial update of the stored movie to the day 739500 is rejected by
  the schema and the store is unchanged; a create request for that day is rejected by the
  date check of \<open>create_movie\<close>.
\<close>

theorem patch_movie_rejects_every_date_witness:
  "b_date postponed = Some (Some 739500) \<and> (739000 :: int) + 365 < 739500 \<and>
   patch_movie heat_db 1 postponed =
     (Inl (ValidationError [(''date'', ''Input should be None'')]), heat_db) \<and>
   create_movie 739000 heat_db heat_postponed =
     (Inl (HTTPException 400 [Text ''Invalid input data.'']), heat_db)"
proof -
  have h: "b_date postponed = Some (Some 739500)" by (simp add: postponed_def)
  have e: "update_errors postponed = [(''date'', ''Input should be None'')]"
    by (simp add: update_errors_def set_field_errors_def field_errors_def none_required_def
        postponed_def)
  from patch_movie_rejects_every_date [of postponed 739500 heat_db 1] h
  obtain errs where "MovieUpdateSchema postponed = Inl (ValidationError errs)"
    and p: "patch_movie heat_db 1 postponed = (Inl (ValidationError errs), heat_db)"
    by blast
  then have "errs = update_errors postponed"
    by (simp add: MovieUpdateSchema_def split: if_splits)
  with p e have "patch_movie heat_db 1 postponed =
     (Inl (ValidationError [(''date'', ''Input should be None'')]), heat_db)" by simp
  moreover have "create_movie 739000 heat_db heat_postponed =
     (Inl (HTTPException 400 [Text ''Invalid input data.'']), heat_db)"
    by (simp add: create_movie_def heat_postponed_def heat_def)
  ultimately show ?thesis using h by simp
qed

section \<open>The dates of the stored movies\<close>

lemma dates_within_later:
  "dates_within today ms \<Longrightarrow> today \<le> later \<Longrightarrow> dates_within later ms"
  by (induction ms) (auto simp: dates_within_def split: option.splits)

lemma create_movie_dates:
  assumes "dates_within today (movies s)"
  shows "dates_within today (movies (snd (create_movie today s d)))"
proof (cases "create_movie today s d")
  case (Pair r s')
  show ?thesis
  proof (cases r)
    case (Inl e)
    with Pair create_movie_Inl_movies have "movies s' = movies s" by blast
    with Pair assms show ?thesis by simp
  next
    case (Inr m)
    with Pair create_movie_Inr_movies
    have "movies s' = movies s @ [m] \<and> m_date m = Some (c_date d) \<and> c_date d \<le> today + 365"
      by blast
    with Pair assms show ?thesis by (simp add: dates_within_def)
  qed
qed

lemma post_movies_dates:
  assumes "dates_within today (movies s)"
  shows "dates_within today (movies (snd (post_movies today s body)))"
  using assms create_movie_dates [OF assms, of body]
  by (simp add: post_movies_def MovieCreateSchema_def)

lemma update_movie_dates:
  assumes "dates_within today (movies s)"
  shows "dates_within today (movies (snd (update_movie s i d)))"
proof (cases "filter (\<lambda>m. int (m_id m) = i) (movies s)" rule: scalar_one_or_none.cases)
  case 1
  with assms show ?thesis by (simp add: update_movie_def)
next
  case (3 x y zs)
  with assms show ?thesis by (simp add: update_movie_def)
next
  case (2 mv)
  then have "mv \<in> set (filter (\<lambda>m. int (m_id m) = i) (movies s))" by simp
  then have "mv \<in> set (movies s)" by simp
  with assms have old: "case m_date mv of None \<Rightarrow> True | Some dt \<Rightarrow> dt \<le> today + 365"
    by (simp add: dates_within_def list_all_iff)
  let ?mv' = "foldl setattr mv (model_dump_exclude_unset d)"
  have "m_date ?mv' = (case u_date d of None \<Rightarrow> m_date mv | Some u \<Rightarrow> None)"
    by (simp add: foldl_setattr_dump)
  with old have new: "case m_date ?mv' of None \<Rightarrow> True | Some dt \<Rightarrow> dt \<le> today + 365"
    by (cases "u_date d") simp_all
  from assms new
  have "dates_within today (map (\<lambda>m. if int (m_id m) = i then ?mv' else m) (movies s))"
    by (auto simp: dates_within_def list_all_iff)
  with 2 show ?thesis by (simp add: update_movie_def Let_def)
qed

lemma patch_movie_dates:
  assumes "dates_within today (movies s)"
  shows "dates_within today (movies (snd (patch_movie s i body)))"
  using assms update_movie_dates [OF assms]
  by (simp add: patch_movie_def split: sum.splits)

lemma delete_movie_dates:
  assumes "dates_within today (movies s)"
  shows "dates_within today (movies (snd (delete_movie s i)))"
  using assms
  by (cases "filter (\<lambda>m. int (m_id m) = i) (movies s)" rule: scalar_one_or_none.cases)
     (simp_all add: delete_movie_def dates_within_def list_all_iff)

section \<open>Create: the (name, date) check\<close>

text \<open>
  C4. In a store that keeps (name, date) unique and in which no date is more than 365
  days after the current date, every create input whose (name, date) pair is that of a
  stored movie gets the HTTP 409 exception from \<open>create_movie\<close>, whatever its other
  fields are; the store is left as it was and the detail names the name and the date of
  the input. The same is the answer of the endpoint to every body the schema accepts. An
  input whose pair no stored movie has never gets a 409. The condition on the dates holds
  of every store the routes can build: of the empty store, and after every create,
  partial update and delete, also on a later day.
\<close>

theorem create_movie_conflict_check:
  "(dates_within today (movies s) \<and> unique_name_date (movies s) \<and>
    m \<in> set (movies s) \<and> same_name_date d m \<longrightarrow>
      create_movie today s d = (Inl (HTTPException 409 (conflict_detail d)), s) \<and>
      StrV (c_name d) \<in> set (conflict_detail d) \<and>
      DateV (c_date d) \<in> set (conflict_detail d) \<and>
      (create_errors d = [] \<longrightarrow>
         post_movies today s d = (Inl (HTTPException 409 (conflict_detail d)), s))) \<and>
   (list_all (\<lambda>m. \<not> same_name_date d m) (movies s) \<longrightarrow>
      (\<forall>detail s'. create_movie today s d \<noteq> (Inl (HTTPException 409 detail), s'))) \<and>
   dates_within today (movies empty_db) \<and>
   (dates_within today (movies s) \<longrightarrow>
      (\<forall>later. today \<le> later \<longrightarrow> dates_within later (movies s)) \<and>
      (\<forall>body. dates_within today (movies (snd (post_movies today s body)))) \<and>
      (\<forall>i body. dates_within today (movies (snd (patch_movie s i body)))) \<and>
      (\<forall>i. dates_within today (movies (snd (delete_movie s i)))))"
proof (intro conjI impI allI)
  assume a: "dates_within today (movies s) \<and> unique_name_date (movies s) \<and>
    m \<in> set (movies s) \<and> same_name_date d m"
  then have "case m_date m of None \<Rightarrow> True | Some dt \<Rightarrow> dt \<le> today + 365"
    by (simp add: dates_within_def list_all_iff)
  moreover from a have "m_date m = Some (c_date d)" by (simp add: same_name_date_def)
  ultimately have dt: "c_date d \<le> today + 365" by simp
  from a have "unique_name_date (movies s)" "m \<in> set (movies s)" "same_name_date d m"
    by simp_all
  from create_movie_conflict [OF dt this]
  show c: "create_movie today s d = (Inl (HTTPException 409 (conflict_detail d)), s)" .
  show "StrV (c_name d) \<in> set (conflict_detail d)" by (simp add: conflict_detail_def)
  show "DateV (c_date d) \<in> set (conflict_detail d)" by (simp add: conflict_detail_def)
  assume "create_errors d = []"
  with c show "post_movies today s d = (Inl (HTTPException 409 (conflict_detail d)), s)"
    by (simp add: post_movies_def MovieCreateSchema_def)
next
  fix detail s'
  assume new: "list_all (\<lambda>m. \<not> same_name_date d m) (movies s)"
  then have nf: "filter (same_name_date d) (movies s) = []"
    by (simp add: filter_empty_conv list_all_iff)
  show "create_movie today s d \<noteq> (Inl (HTTPException 409 detail), s')"
  proof
    assume "create_movie today s d = (Inl (HTTPException 409 detail), s')"
    from create_movie_Inl [OF this] nf show False by auto
  qed
next
  show "dates_within today (movies empty_db)" by (simp add: dates_within_def empty_db_def)
next
  fix later assume "dates_within today (movies s)" and "today \<le> later"
  then show "dates_within later (movies s)" by (rule dates_within_later)
next
  fix body assume "dates_within today (movies s)"
  then show "dates_within today (movies (snd (post_movies today s body)))"
    by (rule post_movies_dates)
next
  fix i body assume "dates_within today (movies s)"
  then show "dates_within today (movies (snd (patch_movie s i body)))"
    by (rule patch_movie_dates)
next
  fix i assume "dates_within today (movies s)"
  then show "dates_within today (movies (snd (delete_movie s i)))"
    by (rule delete_movie_dates)
qed

text \<open>
  The store of the first movie is such a store on the day 739000 and on the day after.
  The stored movie is a conflict for a request of its name and date, also with another
  score, and a request for another name is none.
\<close>

theorem create_movie_conflict_check_witness:
  "dates_within 739000 (movies heat_db) \<and> unique_name_date (movies heat_db) \<and>
   heat_movie \<in> set (movies heat_db) \<and> same_name_date (heat\<lparr>c_score := Finite 10\<rparr>) heat_movie \<and>
   create_errors (heat\<lparr>c_score := Finite 10\<rparr>) = [] \<and> (739000 :: int) \<le> 739001 \<and>
   create_movie 739000 heat_db (heat\<lparr>c_score := Finite 10\<rparr>) =
     (Inl (HTTPException 409 (conflict_detail heat)), heat_db) \<and>
   post_movies 739000 heat_db (heat\<lparr>c_score := Finite 10\<rparr>) =
     (Inl (HTTPException 409 (conflict_detail heat)), heat_db) \<and>
   StrV ''Heat'' \<in> set (conflict_detail heat) \<and> DateV 728642 \<in> set (conflict_detail heat) \<and>
   list_all (\<lambda>m. \<not> same_name_date casino m) (movies heat_db) \<and>
   create_movie 739000 heat_db casino \<noteq>
     (Inl (HTTPException 409 (conflict_detail casino)), heat_db) \<and>
   dates_within 739001 (movies heat_db) \<and>
   dates_within 739000 (movies (snd (post_movies 739000 heat_db casino))) \<and>
   dates_within 739000 (movies (snd (patch_movie heat_db 1 postponed))) \<and>
   dates_within 739000 (movies (snd (delete_movie heat_db 1)))"
proof -
  let ?d = "heat\<lparr>c_score := Finite 10\<rparr>"
  have h: "dates_within 739000 (movies heat_db) \<and> unique_name_date (movies heat_db) \<and>
     heat_movie \<in> set (movies heat_db) \<and> same_name_date ?d heat_movie"
    by (simp add: heat_def heat_db_def heat_movie_def unique_name_date_def same_name_date_def
        dates_within_def)
  have v: "create_errors ?d = []"
    by (simp add: create_errors_def field_errors_def max_length_255_def validate_score_def
        validate_money_def heat_def)
  have n: "list_all (\<lambda>m. \<not> same_name_date casino m) (movies heat_db)"
    by (simp add: casino_def heat_db_def heat_movie_def same_name_date_def)
  have cd: "conflict_detail ?d = conflict_detail heat" by (simp add: conflict_detail_def)
  note t = create_movie_conflict_check [of 739000 heat_db heat_movie ?d]
  note u = create_movie_conflict_check [of 739000 heat_db heat_movie casino]
  from t h v have c: "create_movie 739000 heat_db ?d =
      (Inl (HTTPException 409 (conflict_detail heat)), heat_db)"
    and p: "post_movies 739000 heat_db ?d =
      (Inl (HTTPException 409 (conflict_detail heat)), heat_db)"
    unfolding cd by simp_all
  from t have x: "StrV ''Heat'' \<in> set (conflict_detail heat)"
    "DateV 728642 \<in> set (conflict_detail heat)"
    by (simp_all add: conflict_detail_def heat_def)
  from u n have k: "create_movie 739000 heat_db casino \<noteq>
     (Inl (HTTPException 409 (conflict_detail casino)), heat_db)" by simp
  from t h have i: "dates_within 739001 (movies heat_db)"
    "dates_within 739000 (movies (snd (post_movies 739000 heat_db casino)))"
    "dates_within 739000 (movies (snd (patch_movie heat_db 1 postponed)))"
    "dates_within 739000 (movies (snd (delete_movie heat_db 1)))"
    by simp_all
  from h v n c p x k i show ?thesis by (intro conjI) simp_all
qed

section \<open>The list of movies\<close>

lemma page_le_total_pages:
  assumes "1 \<le> pp"
  shows "(page \<le> \<lceil>(of_int n :: real) / of_int pp\<rceil>) = ((page - 1) * pp < n)"
proof -
  from assms have pos: "(0::real) < of_int pp" by simp
  have "(page \<le> \<lceil>(of_int n :: real) / of_int pp\<rceil>) = (of_int page - 1 < (of_int n :: real) / of_int pp)"
    by (rule le_ceiling_iff)
  also have "\<dots> = ((of_int page - 1) * of_int pp < (of_int n :: real))"
    using pos by (simp add: pos_less_divide_eq)
  also have "\<dots> = ((of_int ((page - 1) * pp) :: real) < of_int n)" by simp
  also have "\<dots> = ((page - 1) * pp < n)" by (rule of_int_less_iff)
  finally show ?thesis .
qed

lemma page_less_total_pages:
  assumes "1 \<le> pp"
  shows "(page < \<lceil>(of_int n :: real) / of_int pp\<rceil>) = (page * pp < n)"
proof -
  have "(page < \<lceil>(of_int n :: real) / of_int pp\<rceil>) =
        (page + 1 \<le> \<lceil>(of_int n :: real) / of_int pp\<rceil>)" by linarith
  with page_le_total_pages [OF assms, of "page + 1" n] show ?thesis by simp
qed

lemma order_by_id_desc_sorted:
  "sorted_wrt (\<lambda>a b. m_id b \<le> m_id a) (order_by_id_desc ms)"
proof -
  have "sorted (map m_id (sort_key m_id ms))" by simp
  then have "sorted_wrt (\<lambda>a b. m_id a \<le> m_id b) (sort_key m_id ms)"
    by (simp add: sorted_map)
  then show ?thesis by (simp add: order_by_id_desc_def sorted_wrt_rev)
qed

lemma order_by_id_desc_mset: "mset (order_by_id_desc ms) = mset ms"
  by (simp add: order_by_id_desc_def)

lemma order_by_id_desc_length: "length (order_by_id_desc ms) = length ms"
  by (simp add: order_by_id_desc_def)

lemma get_movies_page:
  assumes ne: "movies s \<noteq> []" and pp: "1 \<le> per_page"
    and le: "page \<le> \<lceil>(of_int (int (length (movies s))) :: real) / of_int per_page\<rceil>"
  shows "get_movies s page per_page =
     Inr \<lparr>r_movies = take (nat per_page) (drop (nat ((page - 1) * per_page))
                         (order_by_id_desc (movies s))),
          r_total_pages = \<lceil>(of_int (int (length (movies s))) :: real) / of_int per_page\<rceil>,
          r_total_items = int (length (movies s)),
          r_prev_page = (if page > 1 then Some (page_link (page - 1) per_page) else None),
          r_next_page = (if page < \<lceil>(of_int (int (length (movies s))) :: real) / of_int per_page\<rceil>
                         then Some (page_link (page + 1) per_page) else None)\<rparr>"
  using assms by (simp add: get_movies_def Let_def)

lemma page_length:
  assumes pp: "1 \<le> per_page" and p1: "1 \<le> page"
    and le: "page \<le> \<lceil>(of_int (int (length ms)) :: real) / of_int per_page\<rceil>"
  shows "length (take (nat per_page) (drop (nat ((page - 1) * per_page)) (order_by_id_desc ms))) =
           (if page < \<lceil>(of_int (int (length ms)) :: real) / of_int per_page\<rceil> then nat per_page
            else length ms - nat ((page - 1) * per_page)) \<and>
         0 < length (take (nat per_page) (drop (nat ((page - 1) * per_page)) (order_by_id_desc ms)))"
proof -
  let ?n = "int (length ms)"
  from le page_le_total_pages [OF pp, of page ?n] have a: "(page - 1) * per_page < ?n"
    by simp
  from p1 pp have nn: "0 \<le> (page - 1) * per_page" by simp
  have lt: "(page < \<lceil>(of_int ?n :: real) / of_int per_page\<rceil>) = (page * per_page < ?n)"
    using page_less_total_pages [OF pp, of page ?n] by simp
  have eq: "page * per_page = (page - 1) * per_page + per_page" by (simp add: algebra_simps)
  have len: "length (take (nat per_page) (drop (nat ((page - 1) * per_page)) (order_by_id_desc ms))) =
          min (nat per_page) (length ms - nat ((page - 1) * per_page))"
    by (simp add: order_by_id_desc_length)
  show ?thesis
  proof (cases "page * per_page < ?n")
    case True
    with eq nn pp have "nat per_page \<le> length ms - nat ((page - 1) * per_page)" by linarith
    with len lt True pp show ?thesis by simp
  next
    case False
    with eq nn pp have "length ms - nat ((page - 1) * per_page) \<le> nat per_page" by linarith
    moreover from a nn have "0 < length ms - nat ((page - 1) * per_page)" by linarith
    ultimately show ?thesis using len lt False pp by simp
  qed
qed


text \<open>
  C5. For every store with at least one movie and every valid page request (page at least
  1, page size at least 1, page no larger than the page count, a larger page being the
  NotFoundError of C6), \<open>get_movies\<close> returns a page whose movies are the movies of the
  store in descending order of id with the first (page - 1) * per_page skipped and at most
  per_page taken: per_page movies on every page but the last, the remaining ones (at least
  one) on the last. It returns the page count, the number of movies, a link to the previous
  page exactly when page > 1 and a link to the next page exactly when page is below the
  page count; a link is the fixed path \<open>/theater/movies\<close> followed by the query
  parameters \<open>page\<close> and \<open>per_page\<close>.
\<close>

theorem get_movies_page_contents:
  assumes "movies s \<noteq> []" and "1 \<le> page" and "1 \<le> per_page"
    and "page \<le> \<lceil>(of_int (int (length (movies s))) :: real) / of_int per_page\<rceil>"
  shows "\<exists>r. get_movies s page per_page = Inr r \<and>
     r_movies r = take (nat per_page) (drop (nat ((page - 1) * per_page))
                    (order_by_id_desc (movies s))) \<and>
     sorted_wrt (\<lambda>a b. m_id b \<le> m_id a) (order_by_id_desc (movies s)) \<and>
     mset (order_by_id_desc (movies s)) = mset (movies s) \<and>
     length (r_movies r) =
       (if page < \<lceil>(of_int (int (length (movies s))) :: real) / of_int per_page\<rceil>
        then nat per_page else length (movies s) - nat ((page - 1) * per_page)) \<and>
     r_movies r \<noteq> [] \<and>
     r_total_pages r = \<lceil>(of_int (int (length (movies s))) :: real) / of_int per_page\<rceil> \<and>
     r_total_items r = int (length (movies s)) \<and>
     r_prev_page r =
       (if 1 < page
        then Some [Text ''/theater/movies'', Text ''/?page='', IntV (page - 1),
                   Text ''&per_page='', IntV per_page]
        else None) \<and>
     r_next_page r =
       (if page < \<lceil>(of_int (int (length (movies s))) :: real) / of_int per_page\<rceil>
        then Some [Text ''/theater/movies'', Text ''/?page='', IntV (page + 1),
                   Text ''&per_page='', IntV per_page]
        else None)"
proof -
  note r = get_movies_page [OF assms(1,3,4)]
  note l = page_length [OF assms(3,2,4)]
  from l have ne: "take (nat per_page) (drop (nat ((page - 1) * per_page))
                    (order_by_id_desc (movies s))) \<noteq> []" by auto
  show ?thesis
    unfolding r
    using l ne order_by_id_desc_sorted [of "movies s"] order_by_id_desc_mset [of "movies s"]
    by (simp add: page_link_def BASE_URL_def)
qed

text \<open>
  With 25 movies and 10 per page: page 1 has the ids 25 down to 16 and a next link only,
  page 2 the ids 15 down to 6 and both links, page 3 the ids 5 down to 1 and a previous
  link only.
\<close>

theorem get_movies_page_contents_witness:
  "movies (numbered_db 25) \<noteq> [] \<and> (1 :: int) \<le> 3 \<and> (1 :: int) \<le> 10 \<and>
   3 \<le> \<lceil>(of_int (int (length (movies (numbered_db 25)))) :: real) / of_int 10\<rceil> \<and>
   map_sum id (map m_id \<circ> r_movies) (get_movies (numbered_db 25) 1 10) =
     Inr [25, 24, 23, 22, 21, 20, 19, 18, 17, 16] \<and>
   map_sum id r_prev_page (get_movies (numbered_db 25) 1 10) = Inr None \<and>
   map_sum id r_next_page (get_movies (numbered_db 25) 1 10) = Inr (Some (page_link 2 10)) \<and>
   map_sum id (map m_id \<circ> r_movies) (get_movies (numbered_db 25) 2 10) =
     Inr [15, 14, 13, 12, 11, 10, 9, 8, 7, 6] \<and>
   map_sum id r_prev_page (get_movies (numbered_db 25) 2 10) = Inr (Some (page_link 1 10)) \<and>
   map_sum id r_next_page (get_movies (numbered_db 25) 2 10) = Inr (Some (page_link 3 10)) \<and>
   map_sum id (map m_id \<circ> r_movies) (get_movies (numbered_db 25) 3 10) = Inr [5, 4, 3, 2, 1] \<and>
   map_sum id r_prev_page (get_movies (numbered_db 25) 3 10) = Inr (Some (page_link 2 10)) \<and>
   map_sum id r_next_page (get_movies (numbered_db 25) 3 10) = Inr None \<and>
   map_sum id r_total_pages (get_movies (numbered_db 25) 3 10) = Inr 3 \<and>
   map_sum id r_total_items (get_movies (numbered_db 25) 3 10) = Inr 25"
proof -
  have n: "length (movies (numbered_db 25)) = 25" by (simp add: numbered_db_def)
  have h: "movies (numbered_db 25) \<noteq> []" "(1 :: int) \<le> 3" "(1 :: int) \<le> 10"
    "3 \<le> \<lceil>(of_int (int (length (movies (numbered_db 25)))) :: real) / of_int 10\<rceil>"
    using n by auto
  from get_movies_page_contents [OF h] obtain r where
    r: "get_movies (numbered_db 25) 3 10 = Inr r" and
    "r_prev_page r = Some [Text ''/theater/movies'', Text ''/?page='', IntV 2,
                   Text ''&per_page='', IntV 10]" and
    "r_next_page r = None" and "r_total_pages r = 3" and "r_total_items r = 25"
    using n by auto
  then have p3: "map_sum id r_prev_page (get_movies (numbered_db 25) 3 10) = Inr (Some (page_link 2 10))"
    "map_sum id r_next_page (get_movies (numbered_db 25) 3 10) = Inr None"
    "map_sum id r_total_pages (get_movies (numbered_db 25) 3 10) = Inr 3"
    "map_sum id r_total_items (get_movies (numbered_db 25) 3 10) = Inr 25"
    by (simp_all add: page_link_def BASE_URL_def)
  have m3: "map_sum id (map m_id \<circ> r_movies) (get_movies (numbered_db 25) 3 10) = Inr [5, 4, 3, 2, 1]"
    by code_simp
  have m1: "map_sum id (map m_id \<circ> r_movies) (get_movies (numbered_db 25) 1 10) =
     Inr [25, 24, 23, 22, 21, 20, 19, 18, 17, 16]" by code_simp
  have m2: "map_sum id (map m_id \<circ> r_movies) (get_movies (numbered_db 25) 2 10) =
     Inr [15, 14, 13, 12, 11, 10, 9, 8, 7, 6]" by code_simp
  have l1: "map_sum id r_prev_page (get_movies (numbered_db 25) 1 10) = Inr None"
    "map_sum id r_next_page (get_movies (numbered_db 25) 1 10) = Inr (Some (page_link 2 10))"
    "map_sum id r_prev_page (get_movies (numbered_db 25) 2 10) = Inr (Some (page_link 1 10))"
    "map_sum id r_next_page (get_movies (numbered_db 25) 2 10) = Inr (Some (page_link 3 10))"
    using n by (simp_all add: get_movies_def Let_def)
  from h p3 m1 m2 m3 l1 show ?thesis by simp
qed

text \<open>
  C6. For a page size of at least 1, \<open>get_movies\<close> raises the HTTP 404 exception exactly
  when the store has no movie or the page is larger than the page count
  \<open>ceil(total / per_page)\<close>; it raises nothing else, and it returns a page for every
  page from 1 to the page count of a store with at least one movie. A page is within the
  page count exactly when its offset (page - 1) * per_page is below the number of movies.
\<close>

theorem get_movies_not_found:
  assumes "1 \<le> per_page"
  shows "((\<exists>detail. get_movies s page per_page = Inl (HTTPException 404 detail)) \<longleftrightarrow>
            (length (movies s) = 0 \<or>
             \<lceil>(of_int (int (length (movies s))) :: real) / of_int per_page\<rceil> < page)) \<and>
         (\<forall>e. get_movies s page per_page = Inl e \<longrightarrow>
            e = HTTPException 404 [Text ''No movies found.'']) \<and>
         (movies s \<noteq> [] \<and> 1 \<le> page \<and>
          page \<le> \<lceil>(of_int (int (length (movies s))) :: real) / of_int per_page\<rceil> \<longrightarrow>
            (\<exists>r. get_movies s page per_page = Inr r)) \<and>
         ((page \<le> \<lceil>(of_int (int (length (movies s))) :: real) / of_int per_page\<rceil>) =
            ((page - 1) * per_page < int (length (movies s))))"
proof (intro conjI)
  show "(\<exists>detail. get_movies s page per_page = Inl (HTTPException 404 detail)) \<longleftrightarrow>
            (length (movies s) = 0 \<or>
             \<lceil>(of_int (int (length (movies s))) :: real) / of_int per_page\<rceil> < page)"
    using assms by (auto simp: get_movies_def Let_def)
  show "\<forall>e. get_movies s page per_page = Inl e \<longrightarrow>
            e = HTTPException 404 [Text ''No movies found.'']"
    using assms by (auto simp: get_movies_def Let_def split: if_splits)
  show "movies s \<noteq> [] \<and> 1 \<le> page \<and>
          page \<le> \<lceil>(of_int (int (length (movies s))) :: real) / of_int per_page\<rceil> \<longrightarrow>
            (\<exists>r. get_movies s page per_page = Inr r)"
    using assms by (auto simp: get_movies_def Let_def)
  show "(page \<le> \<lceil>(of_int (int (length (movies s))) :: real) / of_int per_page\<rceil>) =
            ((page - 1) * per_page < int (length (movies s)))"
    using page_le_total_pages [OF assms, of page "int (length (movies s))"] by simp
qed

text \<open>
  With 25 movies and 10 per page, page 4 is not found and the pages 1 and 3 are returned;
  page 1 of the empty store is not found.
\<close>

theorem get_movies_not_found_witness:
  "(1 :: int) \<le> 10 \<and>
   get_movies (numbered_db 25) 4 10 = Inl (HTTPException 404 [Text ''No movies found.'']) \<and>
   get_movies empty_db 1 10 = Inl (HTTPException 404 [Text ''No movies found.'']) \<and>
   (\<exists>r. get_movies (numbered_db 25) 3 10 = Inr r) \<and>
   (\<exists>r. get_movies (numbered_db 25) 1 10 = Inr r)"
proof -
  have n: "length (movies (numbered_db 25)) = 25" "movies (numbered_db 25) \<noteq> []"
    by (simp_all add: numbered_db_def)
  have pp: "(1 :: int) \<le> 10" by simp
  note t4 = get_movies_not_found [OF pp, of "numbered_db 25" 4]
  note t3 = get_movies_not_found [OF pp, of "numbered_db 25" 3]
  note t1 = get_movies_not_found [OF pp, of "numbered_db 25" 1]
  note t0 = get_movies_not_found [OF pp, of empty_db 1]
  from t4 n have "\<exists>detail. get_movies (numbered_db 25) 4 10 = Inl (HTTPException 404 detail)"
    by simp
  with t4 have a: "get_movies (numbered_db 25) 4 10 = Inl (HTTPException 404 [Text ''No movies found.''])"
    by auto
  from t0 have "\<exists>detail. get_movies empty_db 1 10 = Inl (HTTPException 404 detail)"
    by (simp add: empty_db_def)
  with t0 have b: "get_movies empty_db 1 10 = Inl (HTTPException 404 [Text ''No movies found.''])"
    by auto
  from t3 n have c: "\<exists>r. get_movies (numbered_db 25) 3 10 = Inr r" by simp
  from t1 n have d: "\<exists>r. get_movies (numbered_db 25) 1 10 = Inr r" by simp
  from a b c d show ?thesis by simp
qed

section \<open>Validation of the create schema\<close>

lemma create_errors_empty:
  "(create_errors d = []) =
     (\<not> 255 < length (c_name d) \<and>
      float_le (Finite 0) (c_score d) \<and> float_le (c_score d) (Finite 100) \<and>
      \<not> float_lt (c_budget d) (Finite 0) \<and> \<not> float_lt (c_revenue d) (Finite 0))"
  by (auto simp: create_errors_def field_errors_def max_length_255_def validate_score_def
      validate_money_def)

lemma create_errors_fields:
  "((''score'', ''Score must be between 0 and 100'') \<in> set (create_errors d)) =
     (\<not> (float_le (Finite 0) (c_score d) \<and> float_le (c_score d) (Finite 100)))"
  "((''budget'', ''Must be non-negative'') \<in> set (create_errors d)) =
     float_lt (c_budget d) (Finite 0)"
  "((''revenue'', ''Must be non-negative'') \<in> set (create_errors d)) =
     float_lt (c_revenue d) (Finite 0)"
  by (auto simp: create_errors_def field_errors_def max_length_255_def validate_score_def
      validate_money_def)

text \<open>
  C9, as amended. Building the create schema fails with a ValidationError exactly when
  the name is longer than 255 characters, or the score is not within 0 and 100 (NaN is
  not), or the budget or the revenue is below 0; otherwise the input is accepted as it
  is. The score, the budget and the revenue are each reported exactly when they break
  their own rule. The rejection is made before any storage access: the endpoint answers
  with that error for every store and current date, and leaves the store as it was. On
  finite values the rules are \<open>0 \<le> x \<le> 100\<close> and \<open>y < 0\<close>; the scores 0 and 100 pass
  the validator, 101 and -1 do not.
\<close>

theorem create_schema_validation:
  "((\<exists>errs. MovieCreateSchema d = Inl (ValidationError errs)) \<longleftrightarrow>
      (255 < length (c_name d) \<or>
       \<not> (float_le (Finite 0) (c_score d) \<and> float_le (c_score d) (Finite 100)) \<or>
       float_lt (c_budget d) (Finite 0) \<or> float_lt (c_revenue d) (Finite 0))) \<and>
   (MovieCreateSchema d = Inr d \<longleftrightarrow>
      \<not> (255 < length (c_name d) \<or>
       \<not> (float_le (Finite 0) (c_score d) \<and> float_le (c_score d) (Finite 100)) \<or>
       float_lt (c_budget d) (Finite 0) \<or> float_lt (c_revenue d) (Finite 0))) \<and>
   ((''score'', ''Score must be between 0 and 100'') \<in> set (create_errors d) \<longleftrightarrow>
      \<not> (float_le (Finite 0) (c_score d) \<and> float_le (c_score d) (Finite 100))) \<and>
   ((''budget'', ''Must be non-negative'') \<in> set (create_errors d) \<longleftrightarrow>
      float_lt (c_budget d) (Finite 0)) \<and>
   ((''revenue'', ''Must be non-negative'') \<in> set (create_errors d) \<longleftrightarrow>
      float_lt (c_revenue d) (Finite 0)) \<and>
   (\<forall>e. MovieCreateSchema d = Inl e \<longrightarrow>
      (\<forall>today s. post_movies today s d = (Inl e, s))) \<and>
   (float_le (Finite 0) (Finite x) \<and> float_le (Finite x) (Finite 100)) = (0 \<le> x \<and> x \<le> 100) \<and>
   float_lt (Finite y) (Finite 0) = (y < 0) \<and>
   validate_score (Finite 0) = Inr (Finite 0) \<and>
   validate_score (Finite 100) = Inr (Finite 100) \<and>
   validate_score (Finite 101) = Inl ''Score must be between 0 and 100'' \<and>
   validate_score (Finite (- 1)) = Inl ''Score must be between 0 and 100''"
proof (intro conjI)
  show "(\<exists>errs. MovieCreateSchema d = Inl (ValidationError errs)) \<longleftrightarrow>
      (255 < length (c_name d) \<or>
       \<not> (float_le (Finite 0) (c_score d) \<and> float_le (c_score d) (Finite 100)) \<or>
       float_lt (c_budget d) (Finite 0) \<or> float_lt (c_revenue d) (Finite 0))"
    using create_errors_empty [of d] by (auto simp: MovieCreateSchema_def)
  show "MovieCreateSchema d = Inr d \<longleftrightarrow>
      \<not> (255 < length (c_name d) \<or>
       \<not> (float_le (Finite 0) (c_score d) \<and> float_le (c_score d) (Finite 100)) \<or>
       float_lt (c_budget d) (Finite 0) \<or> float_lt (c_revenue d) (Finite 0))"
    using create_errors_empty [of d] by (auto simp: MovieCreateSchema_def)
  show "\<forall>e. MovieCreateSchema d = Inl e \<longrightarrow>
      (\<forall>today s. post_movies today s d = (Inl e, s))"
    by (simp add: post_movies_def)
qed (simp_all add: create_errors_fields validate_score_def)

text \<open>
  On the empty store a score of 101 or -1, a negative budget, a NaN score and a revenue of
  minus infinity are rejected with the store left empty; a score of 0 and a score of 100
  are accepted and the movie is created.
\<close>

theorem create_schema_validation_witness:
  "MovieCreateSchema (heat\<lparr>c_score := Finite 101\<rparr>) =
     Inl (ValidationError [(''score'', ''Score must be between 0 and 100'')]) \<and>
   post_movies 739000 empty_db (heat\<lparr>c_score := Finite 101\<rparr>) =
     (Inl (ValidationError [(''score'', ''Score must be between 0 and 100'')]), empty_db) \<and>
   post_movies 739000 empty_db (heat\<lparr>c_score := Finite (- 1)\<rparr>) =
     (Inl (ValidationError [(''score'', ''Score must be between 0 and 100'')]), empty_db) \<and>
   post_movies 739000 empty_db (heat\<lparr>c_budget := Finite (- 1)\<rparr>) =
     (Inl (ValidationError [(''budget'', ''Must be non-negative'')]), empty_db) \<and>
   post_movies 739000 empty_db (heat\<lparr>c_score := NaN, c_revenue := NegInf\<rparr>) =
     (Inl (ValidationError [(''score'', ''Score must be between 0 and 100''),
                            (''revenue'', ''Must be non-negative'')]), empty_db) \<and>
   MovieCreateSchema (heat\<lparr>c_score := Finite 0\<rparr>) = Inr (heat\<lparr>c_score := Finite 0\<rparr>) \<and>
   MovieCreateSchema (heat\<lparr>c_score := Finite 100\<rparr>) = Inr (heat\<lparr>c_score := Finite 100\<rparr>) \<and>
   post_movies 739000 empty_db (heat\<lparr>c_score := Finite 0\<rparr>) =
     (Inr (heat_movie\<lparr>m_score := Some (Finite 0)\<rparr>),
      heat_db\<lparr>movies := [heat_movie\<lparr>m_score := Some (Finite 0)\<rparr>]\<rparr>) \<and>
   post_movies 739000 empty_db (heat\<lparr>c_score := Finite 100\<rparr>) =
     (Inr (heat_movie\<lparr>m_score := Some (Finite 100)\<rparr>),
      heat_db\<lparr>movies := [heat_movie\<lparr>m_score := Some (Finite 100)\<rparr>]\<rparr>)"
proof -
  have e: "MovieCreateSchema (heat\<lparr>c_score := Finite 101\<rparr>) =
     Inl (ValidationError [(''score'', ''Score must be between 0 and 100'')])"
    by (simp add: MovieCreateSchema_def create_errors_def field_errors_def max_length_255_def
        validate_score_def validate_money_def heat_def)
  from create_schema_validation [of "heat\<lparr>c_score := Finite 101\<rparr>"] e
  have p: "post_movies 739000 empty_db (heat\<lparr>c_score := Finite 101\<rparr>) =
     (Inl (ValidationError [(''score'', ''Score must be between 0 and 100'')]), empty_db)"
    by blast
  have q: "post_movies 739000 empty_db (heat\<lparr>c_score := Finite (- 1)\<rparr>) =
     (Inl (ValidationError [(''score'', ''Score must be between 0 and 100'')]), empty_db)"
   "post_movies 739000 empty_db (heat\<lparr>c_budget := Finite (- 1)\<rparr>) =
     (Inl (ValidationError [(''budget'', ''Must be non-negative'')]), empty_db)"
   "post_movies 739000 empty_db (heat\<lparr>c_score := NaN, c_revenue := NegInf\<rparr>) =
     (Inl (ValidationError [(''score'', ''Score must be between 0 and 100''),
                            (''revenue'', ''Must be non-negative'')]), empty_db)"
    by (simp_all add: post_movies_def MovieCreateSchema_def create_errors_def field_errors_def
        max_length_255_def validate_score_def validate_money_def heat_def)
  have a: "MovieCreateSchema (heat\<lparr>c_score := Finite 0\<rparr>) = Inr (heat\<lparr>c_score := Finite 0\<rparr>)"
    "MovieCreateSchema (heat\<lparr>c_score := Finite 100\<rparr>) = Inr (heat\<lparr>c_score := Finite 100\<rparr>)"
    using create_schema_validation [of "heat\<lparr>c_score := Finite 0\<rparr>"]
      create_schema_validation [of "heat\<lparr>c_score := Finite 100\<rparr>"]
    by (simp_all add: heat_def)
  have c: "post_movies 739000 empty_db (heat\<lparr>c_score := Finite 0\<rparr>) =
     (Inr (heat_movie\<lparr>m_score := Some (Finite 0)\<rparr>),
      heat_db\<lparr>movies := [heat_movie\<lparr>m_score := Some (Finite 0)\<rparr>]\<rparr>)"
    "post_movies 739000 empty_db (heat\<lparr>c_score := Finite 100\<rparr>) =
     (Inr (heat_movie\<lparr>m_score := Some (Finite 100)\<rparr>),
      heat_db\<lparr>movies := [heat_movie\<lparr>m_score := Some (Finite 100)\<rparr>]\<rparr>)"
    by code_simp+
  from e p q a c show ?thesis by simp
qed

text \<open>
  The claim as stated fails on the constraint of the name: a request with a name of 256
  characters is rejected with a field error although its score is within 0 and 100 and
  its budget and revenue are not negative.
\<close>

theorem create_schema_validation_counterexample:
  "MovieCreateSchema long_name =
     Inl (ValidationError [(''name'', ''String should have at most 255 characters'')]) \<and>
   float_le (Finite 0) (c_score long_name) \<and> float_le (c_score long_name) (Finite 100) \<and>
   \<not> float_lt (c_budget long_name) (Finite 0) \<and> \<not> float_lt (c_revenue long_name) (Finite 0)"
  by (simp add: long_name_def MovieCreateSchema_def create_errors_def field_errors_def
      max_length_255_def validate_score_def validate_money_def heat_def)

section \<open>Create: the relations of the returned movie\<close>

text \<open>
  C1. A create input that passes the date check and the (name, date) check, on a store
  whose reference tables keep their natural keys unique, returns a movie. For every
  returned movie, the names of its genre, actor and language relations are exactly the
  sets of the input names; no two rows of a relation have the same name, so a relation
  has one link for each name of the deduplicated input list, however often the input
  repeats the name. Two inputs whose lists have the same names, in any order and with any
  repetition, give relations with the same sets of names.
\<close>

theorem create_movie_relations:
  "(c_date d \<le> today + 365 \<and> list_all (\<lambda>m. \<not> same_name_date d m) (movies s) \<and> db_unique s \<longrightarrow>
      (\<exists>m s'. create_movie today s d = (Inr m, s'))) \<and>
   (create_movie today s d = (Inr m, s') \<longrightarrow>
      row_name ` m_genres m = Some ` set (c_genres d) \<and>
      row_name ` m_actors m = Some ` set (c_actors d) \<and>
      row_name ` m_languages m = Some ` set (c_languages d) \<and>
      inj_on row_name (m_genres m) \<and> inj_on row_name (m_actors m) \<and>
      inj_on row_name (m_languages m) \<and>
      card (m_genres m) = length (remdups (c_genres d)) \<and>
      card (m_actors m) = length (remdups (c_actors d)) \<and>
      card (m_languages m) = length (remdups (c_languages d)) \<and>
      (\<forall>today2 s2 d2 m2 s2'.
         create_movie today2 s2 d2 = (Inr m2, s2') \<longrightarrow>
           (set (c_genres d2) = set (c_genres d) \<longrightarrow>
              row_name ` m_genres m2 = row_name ` m_genres m) \<and>
           (set (c_actors d2) = set (c_actors d) \<longrightarrow>
              row_name ` m_actors m2 = row_name ` m_actors m) \<and>
           (set (c_languages d2) = set (c_languages d) \<longrightarrow>
              row_name ` m_languages m2 = row_name ` m_languages m)))"
proof (intro conjI impI)
  assume "c_date d \<le> today + 365 \<and> list_all (\<lambda>m. \<not> same_name_date d m) (movies s) \<and> db_unique s"
  then have "c_date d \<le> today + 365" and "filter (same_name_date d) (movies s) = []"
    and "db_unique s"
    by (simp_all add: filter_empty_conv list_all_iff)
  from create_movie_total [OF this] show "\<exists>m s'. create_movie today s d = (Inr m, s')"
    by blast
next
  assume a: "create_movie today s d = (Inr m, s')"
  note r = create_movie_relation_sets [OF a]
  from r show "row_name ` m_genres m = Some ` set (c_genres d)"
    and "row_name ` m_actors m = Some ` set (c_actors d)"
    and "row_name ` m_languages m = Some ` set (c_languages d)"
    and "inj_on row_name (m_genres m)" and "inj_on row_name (m_actors m)"
    and "inj_on row_name (m_languages m)" by simp_all
  from r show "card (m_genres m) = length (remdups (c_genres d))"
    and "card (m_actors m) = length (remdups (c_actors d))"
    and "card (m_languages m) = length (remdups (c_languages d))"
    by (simp_all add: length_remdups_card_conv)
  show "\<forall>today2 s2 d2 m2 s2'.
         create_movie today2 s2 d2 = (Inr m2, s2') \<longrightarrow>
           (set (c_genres d2) = set (c_genres d) \<longrightarrow>
              row_name ` m_genres m2 = row_name ` m_genres m) \<and>
           (set (c_actors d2) = set (c_actors d) \<longrightarrow>
              row_name ` m_actors m2 = row_name ` m_actors m) \<and>
           (set (c_languages d2) = set (c_languages d) \<longrightarrow>
              row_name ` m_languages m2 = row_name ` m_languages m)"
  proof (intro allI impI conjI)
    fix today2 s2 d2 m2 s2'
    assume b: "create_movie today2 s2 d2 = (Inr m2, s2')"
    note n2 = create_movie_relation_sets [OF b]
    { assume "set (c_genres d2) = set (c_genres d)"
      with r n2 show "row_name ` m_genres m2 = row_name ` m_genres m" by simp }
    { assume "set (c_actors d2) = set (c_actors d)"
      with r n2 show "row_name ` m_actors m2 = row_name ` m_actors m" by simp }
    { assume "set (c_languages d2) = set (c_languages d)"
      with r n2 show "row_name ` m_languages m2 = row_name ` m_languages m" by simp }
  qed
qed

text \<open>
  The first request on the empty store names the genres \<open>Crime, Drama, Crime\<close>: the
  returned movie has two genre links, one to each of the two rows. The reordered request
  gives the rows other ids and the same names.
\<close>

theorem create_movie_relations_witness:
  "c_date heat \<le> 739000 + 365 \<and> list_all (\<lambda>m. \<not> same_name_date heat m) (movies empty_db) \<and>
   db_unique empty_db \<and>
   create_movie 739000 empty_db heat = (Inr heat_movie, heat_db) \<and>
   c_genres heat = [''Crime'', ''Drama'', ''Crime''] \<and>
   m_genres heat_movie = {\<lparr>row_id = 1, row_cols = [(''name'', ''Crime'')]\<rparr>,
                          \<lparr>row_id = 2, row_cols = [(''name'', ''Drama'')]\<rparr>} \<and>
   row_name ` m_genres heat_movie = Some ` set (c_genres heat) \<and>
   card (m_genres heat_movie) = 2 \<and>
   map_sum id m_genres (fst (create_movie 739000 empty_db heat_reordered)) =
     Inr {\<lparr>row_id = 1, row_cols = [(''name'', ''Drama'')]\<rparr>,
          \<lparr>row_id = 2, row_cols = [(''name'', ''Crime'')]\<rparr>} \<and>
   (\<exists>m2 s2'. create_movie 739000 empty_db heat_reordered = (Inr m2, s2') \<and>
      row_name ` m_genres m2 = row_name ` m_genres heat_movie \<and>
      row_name ` m_actors m2 = row_name ` m_actors heat_movie)"
proof -
  have h: "c_date heat \<le> 739000 + 365 \<and>
     list_all (\<lambda>m. \<not> same_name_date heat m) (movies empty_db) \<and> db_unique empty_db"
    by (simp add: heat_def empty_db_def db_unique_def unique_on_def List.map_filter_simps)
  have h2: "c_date heat_reordered \<le> 739000 + 365 \<and>
     list_all (\<lambda>m. \<not> same_name_date heat_reordered m) (movies empty_db) \<and> db_unique empty_db"
    by (simp add: heat_reordered_def heat_def empty_db_def db_unique_def unique_on_def
        List.map_filter_simps)
  have c: "create_movie 739000 empty_db heat = (Inr heat_movie, heat_db)"
    by (rule create_heat)
  have g: "c_genres heat = [''Crime'', ''Drama'', ''Crime'']" by (simp add: heat_def)
  have mg: "m_genres heat_movie = {\<lparr>row_id = 1, row_cols = [(''name'', ''Crime'')]\<rparr>,
                          \<lparr>row_id = 2, row_cols = [(''name'', ''Drama'')]\<rparr>}"
    by (simp add: heat_movie_def)
  have e: "map_sum id m_genres (fst (create_movie 739000 empty_db heat_reordered)) =
     Inr {\<lparr>row_id = 1, row_cols = [(''name'', ''Drama'')]\<rparr>,
          \<lparr>row_id = 2, row_cols = [(''name'', ''Crime'')]\<rparr>}"
    by code_simp
  from create_movie_relations [THEN conjunct1, THEN mp, OF h2]
  obtain m2 s2' where c2: "create_movie 739000 empty_db heat_reordered = (Inr m2, s2')"
    by blast
  have s: "set (c_genres heat_reordered) = set (c_genres heat)"
    "set (c_actors heat_reordered) = set (c_actors heat)"
    by (auto simp: heat_reordered_def heat_def)
  note big = create_movie_relations [THEN conjunct2, THEN mp, OF c]
  from big have n: "row_name ` m_genres heat_movie = Some ` set (c_genres heat)"
    by (elim conjE)
  from big have k: "card (m_genres heat_movie) = length (remdups (c_genres heat))"
    by (elim conjE)
  from big have r: "\<forall>today2 s2 d2 m2 s2'.
         create_movie today2 s2 d2 = (Inr m2, s2') \<longrightarrow>
           (set (c_genres d2) = set (c_genres heat) \<longrightarrow>
              row_name ` m_genres m2 = row_name ` m_genres heat_movie) \<and>
           (set (c_actors d2) = set (c_actors heat) \<longrightarrow>
              row_name ` m_actors m2 = row_name ` m_actors heat_movie) \<and>
           (set (c_languages d2) = set (c_languages heat) \<longrightarrow>
              row_name ` m_languages m2 = row_name ` m_languages heat_movie)"
    by (elim conjE)
  from r [rule_format, OF c2] s
  have o: "row_name ` m_genres m2 = row_name ` m_genres heat_movie"
    "row_name ` m_actors m2 = row_name ` m_actors heat_movie" by simp_all
  from k have k': "card (m_genres heat_movie) = 2" by (simp add: heat_def)
  have x: "\<exists>m2 s2'. create_movie 739000 empty_db heat_reordered = (Inr m2, s2') \<and>
      row_name ` m_genres m2 = row_name ` m_genres heat_movie \<and>
      row_name ` m_actors m2 = row_name ` m_actors heat_movie"
    by (rule exI [of _ m2], rule exI [of _ s2']) (simp add: c2 o)
  from h c g mg n k' e x show ?thesis by (intro conjI) simp_all
qed

section \<open>The upsert resolver\<close>

lemma create_movie_genre_row:
  assumes c: "create_movie today s d = (Inr m, s')" and g: "g \<in> set (c_genres d)"
  shows "\<exists>r. filter (row_matches [(''name'', g)]) (genres s') = [r] \<and> r \<in> m_genres m"
proof -
  from c obtain country s1 gs s2 as s3 ls s4 where
    g1: "get_or_create_each s1 GenreModel (c_genres d) = (Inr gs, s2)" and
    g2: "get_or_create_each s2 ActorModel (c_actors d) = (Inr as, s3)" and
    g3: "get_or_create_each s3 LanguageModel (c_languages d) = (Inr ls, s4)" and
    m: "m = new_movie d (fresh_id (map m_id (movies s4))) country gs as ls" and
    s': "s' = s4\<lparr>movies := movies s4 @ [m]\<rparr>"
    by (rule create_movie_Inr)
  from g obtain i where i: "i < length (c_genres d)" "c_genres d ! i = g"
    by (auto simp: in_set_conv_nth)
  from get_or_create_each_rows [OF g1] i
  have len: "length gs = length (c_genres d)"
    and row: "filter (row_matches [(''name'', g)]) (table s2 GenreModel) = [gs ! i]" by auto
  from get_or_create_each_frame [OF g2] get_or_create_each_frame [OF g3] s'
  have "genres s' = genres s2" by simp
  with row have "filter (row_matches [(''name'', g)]) (genres s') = [gs ! i]" by simp
  moreover from len i have "gs ! i \<in> set gs" by simp
  moreover from m have "m_genres m = set gs" by (simp add: new_movie_def association_def)
  ultimately show ?thesis by simp
qed

lemma create_movie_keeps_genre_row:
  assumes c: "create_movie today s d = (Inr m, s')"
    and one: "filter (row_matches [(''name'', g)]) (genres s) = [r]"
    and g: "g \<in> set (c_genres d)"
  shows "filter (row_matches [(''name'', g)]) (genres s') = [r] \<and> r \<in> m_genres m"
proof -
  from c obtain country s1 gs s2 as s3 ls s4 where
    g0: "get_or_create s CountryModel [(''code'', c_country d)] = (Inr country, s1)" and
    g1: "get_or_create_each s1 GenreModel (c_genres d) = (Inr gs, s2)" and
    g2: "get_or_create_each s2 ActorModel (c_actors d) = (Inr as, s3)" and
    g3: "get_or_create_each s3 LanguageModel (c_languages d) = (Inr ls, s4)" and
    m: "m = new_movie d (fresh_id (map m_id (movies s4))) country gs as ls" and
    s': "s' = s4\<lparr>movies := movies s4 @ [m]\<rparr>"
    by (rule create_movie_Inr)
  from get_or_create_frame [OF g0] one
  have one1: "filter (row_matches [(''name'', g)]) (table s1 GenreModel) = [r]" by simp
  from get_or_create_each_keeps_match [OF g1 one1]
  have row: "filter (row_matches [(''name'', g)]) (table s2 GenreModel) = [r]"
    and len: "length gs = length (c_genres d)"
    and same: "\<forall>i<length (c_genres d). c_genres d ! i = g \<longrightarrow> gs ! i = r" by simp_all
  from g obtain i where i: "i < length (c_genres d)" "c_genres d ! i = g"
    by (auto simp: in_set_conv_nth)
  with same len have "r \<in> set gs" by (metis nth_mem)
  moreover from get_or_create_each_frame [OF g2] get_or_create_each_frame [OF g3] s'
  have "genres s' = genres s2" by simp
  moreover from m have "m_genres m = set gs" by (simp add: new_movie_def association_def)
  ultimately show ?thesis using row by simp
qed

lemma create_twice_shares_row:
  assumes "create_movie t1 s d1 = (Inr m1, s1)" and "create_movie t2 s1 d2 = (Inr m2, s2)"
    and "g \<in> set (c_genres d1)" and "g \<in> set (c_genres d2)"
  shows "\<exists>r. filter (row_matches [(''name'', g)]) (genres s2) = [r] \<and>
             r \<in> m_genres m1 \<and> r \<in> m_genres m2"
proof -
  from create_movie_genre_row [OF assms(1,3)] obtain r
    where r: "filter (row_matches [(''name'', g)]) (genres s1) = [r]" "r \<in> m_genres m1"
    by blast
  from create_movie_keeps_genre_row [OF assms(2) r(1) assms(4)] r(2) show ?thesis by blast
qed

lemma get_or_create_resolves:
  assumes keys: "distinct (map fst kw)"
    and uniq: "length (filter (row_matches kw) (table s mdl)) \<le> 1"
  shows "\<exists>obj s'. get_or_create s mdl kw = (Inr obj, s') \<and>
           row_matches kw obj \<and>
           (case filter (row_matches kw) (table s mdl) of
              [] \<Rightarrow> row_cols obj = kw \<and> table s' mdl = table s mdl @ [obj] \<and>
                    movies s' = movies s
            | r # rs \<Rightarrow> obj = r \<and> s' = s) \<and>
           filter (row_matches kw) (table s' mdl) = [obj] \<and>
           get_or_create s' mdl kw = (Inr obj, s')"
proof (cases "filter (row_matches kw) (table s mdl)")
  case Nil
  obtain obj s' where af: "add_flush s mdl kw = (obj, s')"
    by (cases "add_flush s mdl kw")
  from add_flush_table [OF af]
  have tab: "table s' mdl = table s mdl @ [obj]" and cols: "row_cols obj = kw"
    and mv: "movies s' = movies s"
    by simp_all
  have res: "get_or_create s mdl kw = (Inr obj, s')"
    using Nil af by (simp add: get_or_create_absent)
  have m: "row_matches kw obj"
    using keys cols by (auto simp: row_matches_def list_all_iff)
  have one: "filter (row_matches kw) (table s' mdl) = [obj]"
    using Nil m tab by simp
  from one have again: "get_or_create s' mdl kw = (Inr obj, s')"
    by (rule get_or_create_found)
  show ?thesis using res m Nil cols tab mv one again by simp
next
  case (Cons r rs)
  with uniq have rs: "rs = []" by simp
  with Cons have one: "filter (row_matches kw) (table s mdl) = [r]" by simp
  then have res: "get_or_create s mdl kw = (Inr r, s)"
    by (rule get_or_create_found)
  have "r \<in> set (filter (row_matches kw) (table s mdl))" using one by simp
  then have m: "row_matches kw r" by simp
  show ?thesis using res m one by simp
qed

text \<open>
  C2. For every entity type and every natural key (keyword arguments with distinct
  names) that at most one row of the table matches, \<open>get_or_create\<close> returns a row
  and raises nothing. The row matches every given field exactly. When a row of the table
  matched, it is that row and the session is unchanged; when none matched, the row has
  exactly the given fields and is appended to the table. Afterwards exactly one row of the
  table matches the key, and a second resolve of the key in the same session returns the
  same row and changes nothing. The unique constraint on the key column gives the
  condition that at most one row matches, and a resolve keeps the constraint. When two
  movies are created one after the other and both name a genre, exactly one genre row of
  that name exists afterwards and both movies are linked to it.
\<close>

theorem get_or_create_upsert:
  "(distinct (map fst kw) \<and> length (filter (row_matches kw) (table s mdl)) \<le> 1 \<longrightarrow>
      (\<exists>obj s'. get_or_create s mdl kw = (Inr obj, s') \<and>
         row_matches kw obj \<and>
         (case filter (row_matches kw) (table s mdl) of
            [] \<Rightarrow> row_cols obj = kw \<and> table s' mdl = table s mdl @ [obj] \<and>
                  movies s' = movies s
          | r # rs \<Rightarrow> obj = r \<and> s' = s) \<and>
         filter (row_matches kw) (table s' mdl) = [obj] \<and>
         get_or_create s' mdl kw = (Inr obj, s'))) \<and>
   (unique_on c (table s mdl) \<longrightarrow>
      length (filter (row_matches [(c, x)]) (table s mdl)) \<le> 1 \<and>
      (\<exists>obj s'. get_or_create s mdl [(c, x)] = (Inr obj, s') \<and> unique_on c (table s' mdl))) \<and>
   (create_movie t1 s d1 = (Inr m1, s1) \<and> create_movie t2 s1 d2 = (Inr m2, s2) \<and>
    g \<in> set (c_genres d1) \<and> g \<in> set (c_genres d2) \<longrightarrow>
      (\<exists>r. filter (row_matches [(''name'', g)]) (genres s2) = [r] \<and>
           r \<in> m_genres m1 \<and> r \<in> m_genres m2))"
proof (intro conjI impI)
  assume "distinct (map fst kw) \<and> length (filter (row_matches kw) (table s mdl)) \<le> 1"
  then have "distinct (map fst kw)" "length (filter (row_matches kw) (table s mdl)) \<le> 1"
    by simp_all
  then show "\<exists>obj s'. get_or_create s mdl kw = (Inr obj, s') \<and>
         row_matches kw obj \<and>
         (case filter (row_matches kw) (table s mdl) of
            [] \<Rightarrow> row_cols obj = kw \<and> table s' mdl = table s mdl @ [obj] \<and>
                  movies s' = movies s
          | r # rs \<Rightarrow> obj = r \<and> s' = s) \<and>
         filter (row_matches kw) (table s' mdl) = [obj] \<and>
         get_or_create s' mdl kw = (Inr obj, s')"
    by (rule get_or_create_resolves)
next
  assume u: "unique_on c (table s mdl)"
  then show "length (filter (row_matches [(c, x)]) (table s mdl)) \<le> 1"
    by (rule unique_on_filter)
  from u show "\<exists>obj s'. get_or_create s mdl [(c, x)] = (Inr obj, s') \<and> unique_on c (table s' mdl)"
    by (rule get_or_create_total)
next
  assume "create_movie t1 s d1 = (Inr m1, s1) \<and> create_movie t2 s1 d2 = (Inr m2, s2) \<and>
    g \<in> set (c_genres d1) \<and> g \<in> set (c_genres d2)"
  then have "create_movie t1 s d1 = (Inr m1, s1)" "create_movie t2 s1 d2 = (Inr m2, s2)"
    "g \<in> set (c_genres d1)" "g \<in> set (c_genres d2)" by simp_all
  then show "\<exists>r. filter (row_matches [(''name'', g)]) (genres s2) = [r] \<and>
           r \<in> m_genres m1 \<and> r \<in> m_genres m2"
    by (rule create_twice_shares_row)
qed

text \<open>
  The genre \<open>Crime\<close> is created in the empty store and found again by a second resolve;
  in the store of the first movie it is found, while \<open>crime\<close> in lower case is another
  key and gets a row of its own. The second movie is linked to the \<open>Crime\<close> row of the
  first.
\<close>

theorem get_or_create_upsert_witness:
  "distinct (map fst [(''name'', ''Crime'')]) \<and>
   length (filter (row_matches [(''name'', ''Crime'')]) (table empty_db GenreModel)) \<le> 1 \<and>
   get_or_create empty_db GenreModel [(''name'', ''Crime'')] =
     (Inr crime_row, empty_db\<lparr>genres := [crime_row]\<rparr>) \<and>
   get_or_create (empty_db\<lparr>genres := [crime_row]\<rparr>) GenreModel [(''name'', ''Crime'')] =
     (Inr crime_row, empty_db\<lparr>genres := [crime_row]\<rparr>) \<and>
   length (filter (row_matches [(''name'', ''Crime'')]) (table heat_db GenreModel)) \<le> 1 \<and>
   get_or_create heat_db GenreModel [(''name'', ''Crime'')] = (Inr crime_row, heat_db) \<and>
   get_or_create heat_db GenreModel [(''name'', ''crime'')] =
     (Inr \<lparr>row_id = 3, row_cols = [(''name'', ''crime'')]\<rparr>,
      heat_db\<lparr>genres := genres heat_db @ [\<lparr>row_id = 3, row_cols = [(''name'', ''crime'')]\<rparr>]\<rparr>) \<and>
   unique_on ''name'' (table heat_db GenreModel) \<and>
   create_movie 739000 empty_db heat = (Inr heat_movie, heat_db) \<and>
   (\<exists>m2 s2. create_movie 739000 heat_db casino = (Inr m2, s2) \<and>
      filter (row_matches [(''name'', ''Crime'')]) (genres s2) = [crime_row] \<and>
      crime_row \<in> m_genres heat_movie \<and> crime_row \<in> m_genres m2)"
proof -
  have h1: "distinct (map fst [(''name'', ''Crime'')]) \<and>
     length (filter (row_matches [(''name'', ''Crime'')]) (table empty_db GenreModel)) \<le> 1"
    by (simp add: empty_db_def)
  have h2: "distinct (map fst [(''name'', ''Crime'')]) \<and>
     length (filter (row_matches [(''name'', ''Crime'')]) (table heat_db GenreModel)) \<le> 1"
    by (simp add: heat_db_def row_matches_def)
  have e1: "get_or_create empty_db GenreModel [(''name'', ''Crime'')] =
     (Inr crime_row, empty_db\<lparr>genres := [crime_row]\<rparr>)"
    by (simp add: get_or_create_def empty_db_def crime_row_def fresh_id_def Let_def)
  from get_or_create_upsert [THEN conjunct1, THEN mp, OF h1] e1
  have e2: "get_or_create (empty_db\<lparr>genres := [crime_row]\<rparr>) GenreModel [(''name'', ''Crime'')] =
     (Inr crime_row, empty_db\<lparr>genres := [crime_row]\<rparr>)"
    by auto
  have e3: "get_or_create heat_db GenreModel [(''name'', ''Crime'')] = (Inr crime_row, heat_db)"
    using get_or_create_upsert [THEN conjunct1, THEN mp, OF h2]
    by (simp add: get_or_create_def heat_db_def crime_row_def row_matches_def)
  have e4: "get_or_create heat_db GenreModel [(''name'', ''crime'')] =
     (Inr \<lparr>row_id = 3, row_cols = [(''name'', ''crime'')]\<rparr>,
      heat_db\<lparr>genres := genres heat_db @ [\<lparr>row_id = 3, row_cols = [(''name'', ''crime'')]\<rparr>]\<rparr>)"
    by (simp add: get_or_create_def heat_db_def row_matches_def fresh_id_def Let_def)
  have u: "unique_on ''name'' (table heat_db GenreModel)"
    by (simp add: heat_db_def unique_on_def List.map_filter_simps)
  have c1: "create_movie 739000 empty_db heat = (Inr heat_movie, heat_db)"
    by (rule create_heat)
  obtain m2 s2 where c2: "create_movie 739000 heat_db casino = (Inr m2, s2)"
    and f: "filter (row_matches [(''name'', ''Crime'')]) (genres s2) = [crime_row]"
    by (simp add: eval_defs crime_row_def)
  have g: "''Crime'' \<in> set (c_genres heat)" "''Crime'' \<in> set (c_genres casino)"
    by (simp_all add: heat_def casino_def)
  from get_or_create_upsert [THEN conjunct2, THEN conjunct2, THEN mp,
      of 739000 empty_db heat heat_movie heat_db 739000 casino m2 s2 "''Crime''"] c1 c2 g
  obtain r where "filter (row_matches [(''name'', ''Crime'')]) (genres s2) = [r]"
    and "r \<in> m_genres heat_movie" and "r \<in> m_genres m2" by blast
  with f have m: "crime_row \<in> m_genres heat_movie" "crime_row \<in> m_genres m2"
    by simp_all
  have e: "\<exists>m2 s2. create_movie 739000 heat_db casino = (Inr m2, s2) \<and>
      filter (row_matches [(''name'', ''Crime'')]) (genres s2) = [crime_row] \<and>
      crime_row \<in> m_genres heat_movie \<and> crime_row \<in> m_genres m2"
    by (rule exI [of _ m2], rule exI [of _ s2]) (simp add: c2 f m)
  from h1 h2 e1 e2 e3 e4 u c1 e show ?thesis by (intro conjI) simp_all
qed

end
